theory Spec2Isabelle
  imports Main "HOL-Library.List_Lexorder" "HOL-Library.Char_ord"
begin

section \<open>Data model\<close>

text \<open>
  The API objects of the service catalog as the controller reads and writes them.
  A Go pointer field that may be nil is an \<open>option\<close>; \<open>metav1.Time\<close> and
  \<open>time.Duration\<close> are integers on one clock scale, so that \<open>t.Add(d)\<close> is
  \<open>t + d\<close> and \<open>a.After(b)\<close> is \<open>b < a\<close>.
\<close>

type_synonym Time = int
type_synonym Duration = int

datatype ConditionStatus = ConditionTrue | ConditionFalse | ConditionUnknown

datatype InstanceConditionType = InstanceConditionReady | InstanceConditionFailed

datatype ServiceBrokerConditionType = ServiceBrokerConditionReady | ServiceBrokerConditionFailed

datatype ServiceBrokerRelistBehavior =
  ServiceBrokerRelistBehaviorDuration | ServiceBrokerRelistBehaviorManual

text \<open>
  Go errors. \<open>osb.IsHTTPError\<close> recognises the broker client's
  \<open>HTTPStatusCodeError\<close> (status code, error message, description),
  \<open>errors.IsNotFound\<close> the API server's not-found status; every other error is opaque.
\<close>

datatype error =
  HTTPStatusCodeError int "string option" "string option"
  | NotFound string
  | Error string

fun IsHTTPError :: "error \<Rightarrow> bool" where
  "IsHTTPError (HTTPStatusCodeError code m d) = True"
| "IsHTTPError e = False"

fun IsGoneError :: "error \<Rightarrow> bool" where
  "IsGoneError (HTTPStatusCodeError code m d) = (code = 410)"
| "IsGoneError e = False"

fun IsNotFound :: "error \<Rightarrow> bool" where
  "IsNotFound (NotFound s) = True"
| "IsNotFound e = False"

record ObjectMeta =
  Namespace :: string
  Name :: string
  Generation :: int
  DeletionTimestamp :: "Time option"
  Finalizers :: "string list"

record 't Condition =
  CondType :: 't
  CondStatus :: ConditionStatus
  Reason :: string
  Message :: string
  LastTransitionTime :: Time

record ('spec, 'status) Resource =
  ObjectMeta :: ObjectMeta
  Spec :: 'spec
  Status :: 'status

record InstanceSpec =
  ServiceClassName :: string
  PlanName :: string
  Parameters :: "string option"
  ExternalID :: string

record InstanceStatus =
  Conditions :: "InstanceConditionType Condition list"
  AsyncOpInProgress :: bool
  LastOperation :: "string option"
  DashboardURL :: "string option"
  Checksum :: "string option"

type_synonym ServiceCatalogInstance = "(InstanceSpec, InstanceStatus) Resource"

record BrokerSpec =
  URL :: string
  InsecureSkipTLSVerify :: bool
  CABundle :: string
  RelistBehavior :: ServiceBrokerRelistBehavior
  RelistDuration :: "Duration option"

record BrokerStatus =
  BrokerConditions :: "ServiceBrokerConditionType Condition list"
  ReconciledGeneration :: int
  OperationStartTime :: "Time option"

type_synonym ClusterServiceBroker = "(BrokerSpec, BrokerStatus) Resource"

definition FinalizerServiceCatalog :: string where
  "FinalizerServiceCatalog = ''kubernetes-incubator/service-catalog''"

section \<open>Condition machine\<close>

subsection \<open>Instances: setInstanceConditionInternal\<close>

text \<open>
  The \<open>for i, cond := range toUpdate.Status.Conditions\<close> loop of
  \<open>setInstanceConditionInternal\<close>: at the first condition of the given type the new
  condition is written at that index and the function returns (\<open>Some\<close>); running off
  the end of the slice is \<open>None\<close>.
\<close>

fun setInstanceConditionLoop ::
  "InstanceConditionType Condition list \<Rightarrow> InstanceConditionType \<Rightarrow> ConditionStatus \<Rightarrow>
     string \<Rightarrow> string \<Rightarrow> Time \<Rightarrow> InstanceConditionType Condition list option" where
  "setInstanceConditionLoop [] conditionType status reason message t = None"
| "setInstanceConditionLoop (cond # rest) conditionType status reason message t =
     (if CondType cond = conditionType then
        Some (\<lparr>CondType = conditionType, CondStatus = status, Reason = reason, Message = message,
               LastTransitionTime =
                 (if CondStatus cond \<noteq> status then t else LastTransitionTime cond)\<rparr> # rest)
      else map_option ((#) cond)
             (setInstanceConditionLoop rest conditionType status reason message t))"

definition setInstanceConditionInternal ::
  "ServiceCatalogInstance \<Rightarrow> InstanceConditionType \<Rightarrow> ConditionStatus \<Rightarrow> string \<Rightarrow> string \<Rightarrow>
     Time \<Rightarrow> ServiceCatalogInstance" where
  "setInstanceConditionInternal toUpdate conditionType status reason message t =
     (let newCondition = \<lparr>CondType = conditionType, CondStatus = status, Reason = reason,
                           Message = message, LastTransitionTime = t\<rparr>
      in if length (Conditions (Status toUpdate)) = 0 then
           toUpdate\<lparr>Status := (Status toUpdate)\<lparr>Conditions := [newCondition]\<rparr>\<rparr>
         else
           (case setInstanceConditionLoop (Conditions (Status toUpdate))
                   conditionType status reason message t of
              Some conds \<Rightarrow> toUpdate\<lparr>Status := (Status toUpdate)\<lparr>Conditions := conds\<rparr>\<rparr>
            | None \<Rightarrow>
                toUpdate\<lparr>Status := (Status toUpdate)
                   \<lparr>Conditions := Conditions (Status toUpdate) @ [newCondition]\<rparr>\<rparr>))"

subsection \<open>Brokers: the condition update inside updateClusterServiceBrokerCondition\<close>

text \<open>
  The loop of \<open>updateClusterServiceBrokerCondition\<close> over
  \<open>broker.Status.Conditions\<close>: the first condition of the given type is overwritten in
  the copy and the loop breaks. When no condition has the type the copy's conditions are
  what they were: the source has no statement after the loop that adds the new one.
\<close>

fun brokerConditionLoop ::
  "ServiceBrokerConditionType Condition list \<Rightarrow> ServiceBrokerConditionType \<Rightarrow> ConditionStatus \<Rightarrow>
     string \<Rightarrow> string \<Rightarrow> Time \<Rightarrow> ServiceBrokerConditionType Condition list" where
  "brokerConditionLoop [] conditionType status reason message t = []"
| "brokerConditionLoop (cond # rest) conditionType status reason message t =
     (if CondType cond = conditionType then
        \<lparr>CondType = conditionType, CondStatus = status, Reason = reason, Message = message,
          LastTransitionTime =
            (if CondStatus cond \<noteq> status then t else LastTransitionTime cond)\<rparr> # rest
      else cond # brokerConditionLoop rest conditionType status reason message t)"

text \<open>
  The object \<open>updateClusterServiceBrokerCondition\<close> submits to \<open>UpdateStatus\<close>,
  as a function of the broker it is given and of the clock reading \<open>t\<close>: the conditions
  as above, and \<open>ReconciledGeneration\<close> set to the generation when the ready condition
  becomes true.
\<close>

definition brokerWithCondition ::
  "ClusterServiceBroker \<Rightarrow> ServiceBrokerConditionType \<Rightarrow> ConditionStatus \<Rightarrow> string \<Rightarrow> string \<Rightarrow>
     Time \<Rightarrow> ClusterServiceBroker" where
  "brokerWithCondition broker conditionType status reason message t =
     (let toUpdate = broker;
          toUpdate =
            (if length (BrokerConditions (Status broker)) = 0 then
               toUpdate\<lparr>Status := (Status toUpdate)\<lparr>BrokerConditions :=
                 [\<lparr>CondType = conditionType, CondStatus = status, Reason = reason,
                    Message = message, LastTransitionTime = t\<rparr>]\<rparr>\<rparr>
             else
               toUpdate\<lparr>Status := (Status toUpdate)\<lparr>BrokerConditions :=
                 brokerConditionLoop (BrokerConditions (Status broker))
                   conditionType status reason message t\<rparr>\<rparr>)
      in if conditionType = ServiceBrokerConditionReady \<and> status = ConditionTrue then
           toUpdate\<lparr>Status := (Status toUpdate)
             \<lparr>ReconciledGeneration := Generation (ObjectMeta toUpdate)\<rparr>\<rparr>
         else toUpdate)"

section \<open>Broker relist gate\<close>

text \<open>
  The loop of \<open>shouldReconcileClusterServiceBroker\<close> that looks for the ready
  condition, with the \<open>return true\<close> that follows it.
\<close>

fun shouldReconcileLoop ::
  "ServiceBrokerConditionType Condition list \<Rightarrow> ClusterServiceBroker \<Rightarrow> Time \<Rightarrow> bool" where
  "shouldReconcileLoop [] broker now = True"
| "shouldReconcileLoop (condition # rest) broker now =
     (if CondType condition = ServiceBrokerConditionReady then
        (if CondStatus condition = ConditionTrue then
           (if RelistBehavior (Spec broker) = ServiceBrokerRelistBehaviorManual then False
            else
              (case RelistDuration (Spec broker) of
                 None \<Rightarrow> False
               | Some duration \<Rightarrow> LastTransitionTime condition + duration < now))
         else True)
      else shouldReconcileLoop rest broker now)"

definition shouldReconcileClusterServiceBroker :: "ClusterServiceBroker \<Rightarrow> Time \<Rightarrow> bool" where
  "shouldReconcileClusterServiceBroker broker now =
     (if ReconciledGeneration (Status broker) \<noteq> Generation (ObjectMeta broker) then True
      else if DeletionTimestamp (ObjectMeta broker) \<noteq> None
              \<or> length (BrokerConditions (Status broker)) = 0 then True
      else shouldReconcileLoop (BrokerConditions (Status broker)) broker now)"

section \<open>Collaborators and effects\<close>

text \<open>
  The objects of the catalog that an instance refers to, the requests and responses of
  the broker client (\<open>osb.Client\<close>), and the observable actions of a reconciliation.
\<close>

record ServiceClassSpec =
  ClusterServiceBrokerName :: string
  ClassBindable :: bool
  ClassPlanUpdatable :: bool
  ClassExternalID :: string
  ClassExternalName :: string
  ClassTags :: "string list"
  ClassDescription :: string
  ClassRequires :: "string list"
  ClassExternalMetadata :: "string option"

type_synonym ServiceClass = "(ServiceClassSpec, unit) Resource"

record ServicePlanSpec =
  PlanClusterServiceBrokerName :: string
  PlanExternalName :: string
  PlanExternalID :: string
  PlanFree :: bool
  PlanDescription :: string
  PlanBindable :: "bool option"
  ServiceClassRef :: string
  PlanExternalMetadata :: "string option"
  ServiceInstanceCreateParameterSchema :: "string option"
  ServiceInstanceUpdateParameterSchema :: "string option"
  ServiceInstanceCredentialCreateParameterSchema :: "string option"

type_synonym ServicePlan = "(ServicePlanSpec, unit) Resource"

type_synonym ParameterMap = "(string \<times> string) list"

datatype BrokerRequest =
  DeprovisionRequest string string string bool
  | ProvisionRequest bool string string string ParameterMap string string "(string \<times> string) list"
  | LastOperationRequest string "string option" "string option" "string option"

record DeprovisionResponse =
  DeprovisionAsync :: bool
  DeprovisionOperationKey :: "string option"

record ProvisionResponse =
  ProvisionAsync :: bool
  ProvisionDashboardURL :: "string option"
  ProvisionOperationKey :: "string option"

datatype LastOperationState = StateInProgress | StateSucceeded | StateFailed | StateOther string

record LastOperationResponse =
  State :: LastOperationState
  Description :: "string option"

text \<open>An opaque decoded JSON value (Go's \<open>interface{}\<close>), as a catalog carries it.\<close>

datatype Value = Value string

record InputParameters =
  SchemaParameters :: "Value option"

record ServiceInstanceSchema =
  SchemaCreate :: "InputParameters option"
  SchemaUpdate :: "InputParameters option"

record ServiceBindingSchema =
  BindingSchemaCreate :: "InputParameters option"

record AlphaParameterSchemas =
  ServiceInstances :: "ServiceInstanceSchema option"
  ServiceBindings :: "ServiceBindingSchema option"

record Plan =
  PlanID :: string
  OsbPlanName :: string
  OsbPlanDescription :: string
  OsbPlanFree :: "bool option"
  OsbPlanBindable :: "bool option"
  OsbPlanMetadata :: "Value option"
  OsbAlphaParameterSchemas :: "AlphaParameterSchemas option"

record Service =
  ServiceID :: string
  ServiceName :: string
  ServiceDescription :: string
  ServiceTags :: "string list"
  ServiceRequires :: "string list"
  ServiceBindable :: bool
  ServicePlanUpdatable :: "bool option"
  Plans :: "Plan list"
  ServiceMetadata :: "Value option"

record CatalogResponse =
  Services :: "Service list"

text \<open>
  A broker client: what each call answers. The calls themselves are recorded as actions
  by the code that makes them.
\<close>

record BrokerClient =
  GetCatalog :: "error + CatalogResponse"
  ProvisionInstance :: "BrokerRequest \<Rightarrow> error + ProvisionResponse"
  DeprovisionInstance :: "BrokerRequest \<Rightarrow> error + DeprovisionResponse"
  PollLastOperation :: "BrokerRequest \<Rightarrow> error + LastOperationResponse"

datatype AuthConfig = BasicAuthConfig string string | BearerConfig string

record ClientConfiguration =
  ConfigName :: string
  ConfigURL :: string
  ConfigAuthConfig :: "AuthConfig option"
  EnableAlphaFeatures :: bool
  Insecure :: bool
  CAData :: string

datatype action =
  ActUpdateStatus ServiceCatalogInstance
  | ActGet string string
  | ActBroker BrokerRequest
  | ActGetCatalog
  | ActGetNamespace string
  | ActEvent string string string
  | ActPollingQueueAdd string
  | ActUpdateBrokerStatus ClusterServiceBroker
  | ActGetBroker string
  | ActCreateServiceClass ServiceClass
  | ActUpdateServiceClass ServiceClass
  | ActDeleteServiceClass string
  | ActCreateServicePlan ServicePlan
  | ActUpdateServicePlan ServicePlan
  | ActDeleteServicePlan string

subsection \<open>The rate-limited work queue\<close>

text \<open>
  The queue of \<open>k8s.io/client-go/util/workqueue\<close> that the controller uses, by its
  contract: \<open>queue\<close> holds the keys waiting to be taken, in order; \<open>dirty\<close> the keys
  that need processing; \<open>processing\<close> the keys handed out by \<open>Get\<close> and not yet
  \<open>Done\<close>; \<open>waiting\<close> the keys that \<open>AddRateLimited\<close> will add once their
  back-off delay has passed; \<open>failures\<close> the number of times each key was added with
  rate limiting since it was last forgotten.
\<close>

record workqueue =
  queue :: "string list"
  dirty :: "string list"
  processing :: "string list"
  waiting :: "string list"
  failures :: "string \<Rightarrow> nat"
  shuttingDown :: bool

definition emptyQueue :: workqueue where
  "emptyQueue = \<lparr>queue = [], dirty = [], processing = [], waiting = [],
                  failures = (\<lambda>k. 0), shuttingDown = False\<rparr>"

definition Add :: "string \<Rightarrow> workqueue \<Rightarrow> workqueue" where
  "Add item q =
     (if shuttingDown q then q
      else if item \<in> set (dirty q) then q
      else if item \<in> set (processing q) then q\<lparr>dirty := dirty q @ [item]\<rparr>
      else q\<lparr>dirty := dirty q @ [item], queue := queue q @ [item]\<rparr>)"

text \<open>
  \<open>Get\<close> blocks while the queue is empty and not shut down: that is \<open>None\<close>.
  Otherwise it answers the key and whether the caller must quit, with the queue after
  the call.
\<close>

definition Get :: "workqueue \<Rightarrow> ((string \<times> bool) \<times> workqueue) option" where
  "Get q =
     (case queue q of
        [] \<Rightarrow> (if shuttingDown q then Some (([], True), q) else None)
      | item # rest \<Rightarrow>
          Some ((item, False),
                q\<lparr>queue := rest, processing := processing q @ [item],
                   dirty := removeAll item (dirty q)\<rparr>))"

definition Done :: "string \<Rightarrow> workqueue \<Rightarrow> workqueue" where
  "Done item q =
     (let q1 = q\<lparr>processing := removeAll item (processing q)\<rparr>
      in if item \<in> set (dirty q1) then q1\<lparr>queue := queue q1 @ [item]\<rparr> else q1)"

definition NumRequeues :: "workqueue \<Rightarrow> string \<Rightarrow> nat" where
  "NumRequeues q item = failures q item"

definition Forget :: "string \<Rightarrow> workqueue \<Rightarrow> workqueue" where
  "Forget item q = q\<lparr>failures := (failures q)(item := 0)\<rparr>"

definition AddRateLimited :: "string \<Rightarrow> workqueue \<Rightarrow> workqueue" where
  "AddRateLimited item q =
     (if shuttingDown q then q\<lparr>failures := (failures q)(item := Suc (failures q item))\<rparr>
      else q\<lparr>failures := (failures q)(item := Suc (failures q item)),
              waiting := waiting q @ [item]\<rparr>)"

text \<open>The back-off delays of all waiting keys pass: each is added to the queue.\<close>

definition delaysElapse :: "workqueue \<Rightarrow> workqueue" where
  "delaysElapse q = fold Add (waiting q) (q\<lparr>waiting := []\<rparr>)"

text \<open>A key is held by the queue when it is queued, marked dirty, being processed or waiting.\<close>

definition holds :: "workqueue \<Rightarrow> string \<Rightarrow> bool" where
  "holds q item =
     (item \<in> set (queue q) \<or> item \<in> set (dirty q) \<or> item \<in> set (processing q)
      \<or> item \<in> set (waiting q))"

subsection \<open>The controller and the world it acts on\<close>

text \<open>
  The controller's collaborators, as the answers they give: the clock (the n-th reading),
  the API server's answer to the n-th write, its answer to a \<open>Get\<close> of the instance
  or of the broker issued after n writes (\<open>None\<close> when the \<open>Get\<close> succeeds and
  answers the server's copy, \<open>Some obj\<close> when it fails and the client hands back
  \<open>obj\<close> with the error),
  the checksum of an instance spec, the listers of the informer caches, the secret lookup
  for a broker's credentials, the broker client factory, the decoder of instance
  parameters, the namespace lookup, the JSON encoder, and the configured retry duration.
\<close>

record controller =
  clock :: "nat \<Rightarrow> Time"
  apiWriteErr :: "nat \<Rightarrow> error option"
  instanceGetFailure :: "nat \<Rightarrow> ServiceCatalogInstance option"
  brokerGetFailure :: "nat \<Rightarrow> ClusterServiceBroker option"
  InstanceSpecChecksum :: "InstanceSpec \<Rightarrow> string"
  serviceClassLister :: "string \<Rightarrow> error + ServiceClass"
  servicePlanLister :: "string \<Rightarrow> error + ServicePlan"
  brokerLister :: "string \<Rightarrow> error + ClusterServiceBroker"
  serviceClassListerList :: "error + ServiceClass list"
  servicePlanListerList :: "error + ServicePlan list"
  getAuthCredentialsFromBroker :: "ClusterServiceBroker \<Rightarrow> error + AuthConfig option"
  brokerClientCreateFunc :: "ClientConfiguration \<Rightarrow> error + BrokerClient"
  unmarshalParameters :: "string \<Rightarrow> error + ParameterMap"
  getNamespace :: "string \<Rightarrow> error + string"
  Marshal :: "Value \<Rightarrow> error + string"
  reconciliationRetryDuration :: Duration

text \<open>
  What a reconciliation changes: the API server's copy of the instance and of the broker,
  the actions taken so far (in order), the number of API writes and of clock readings so
  far, and the polling queue.
\<close>

record world =
  instanceServer :: ServiceCatalogInstance
  brokerServer :: ClusterServiceBroker
  actions :: "action list"
  writes :: nat
  ticks :: nat
  pollingQueue :: workqueue

definition Now :: "controller \<Rightarrow> world \<Rightarrow> Time \<times> world" where
  "Now c w = (clock c (ticks w), w\<lparr>ticks := Suc (ticks w)\<rparr>)"

definition act :: "action \<Rightarrow> world \<Rightarrow> world" where
  "act a w = w\<lparr>actions := actions w @ [a]\<rparr>"

text \<open>
  Modelled from the spec: what the API server stores for a status update of an instance
  is not among the sources. The reconciler never assigns \<open>Status.Checksum\<close> and yet
  reads it: a nil checksum is an instance that was never provisioned (spec 4.6,
  \<open>reconcileInstanceDelete\<close>), a checksum equal to the digest of the spec is an instance
  with no work to do (spec 4.2), and the spec (8) has the two equal after a reconciliation
  that succeeded. So the server records it: a status update whose ready condition (the
  first condition of that type, the one \<open>setInstanceCondition\<close> maintains) is true is
  stored with the checksum of its spec, and any other update is stored as submitted.
\<close>

fun readyConditionTrue :: "InstanceConditionType Condition list \<Rightarrow> bool" where
  "readyConditionTrue [] = False"
| "readyConditionTrue (condition # rest) =
     (if CondType condition = InstanceConditionReady then CondStatus condition = ConditionTrue
      else readyConditionTrue rest)"

definition statusUpdateStored :: "controller \<Rightarrow> ServiceCatalogInstance \<Rightarrow> ServiceCatalogInstance" where
  "statusUpdateStored c obj =
     (if readyConditionTrue (Conditions (Status obj)) then
        obj\<lparr>Status := (Status obj)\<lparr>Checksum := Some (InstanceSpecChecksum c (Spec obj))\<rparr>\<rparr>
      else obj)"

text \<open>
  \<open>ServiceCatalogInstances(ns).UpdateStatus(obj)\<close>: the call is recorded; when the
  server accepts it the server's copy becomes what it stores for the submitted object.
\<close>

definition UpdateStatus :: "controller \<Rightarrow> ServiceCatalogInstance \<Rightarrow> world \<Rightarrow> error option \<times> world" where
  "UpdateStatus c obj w =
     (let w1 = (act (ActUpdateStatus obj) w)\<lparr>writes := Suc (writes w)\<rparr>
      in case apiWriteErr c (writes w) of
           None \<Rightarrow> (None, w1\<lparr>instanceServer := statusUpdateStored c obj\<rparr>)
         | Some err \<Rightarrow> (Some err, w1))"

definition NewClientConfigurationForBroker ::
  "ClusterServiceBroker \<Rightarrow> AuthConfig option \<Rightarrow> ClientConfiguration" where
  "NewClientConfigurationForBroker broker authConfig =
     \<lparr>ConfigName = Name (ObjectMeta broker), ConfigURL = URL (Spec broker),
      ConfigAuthConfig = authConfig, EnableAlphaFeatures = True,
      Insecure = InsecureSkipTLSVerify (Spec broker), CAData = CABundle (Spec broker)\<rparr>"

text \<open>\<open>cache.DeletionHandlingMetaNamespaceKeyFunc\<close> on an API object: namespace/name.\<close>

definition MetaNamespaceKey :: "ObjectMeta \<Rightarrow> string" where
  "MetaNamespaceKey m =
     (if length (Namespace m) > 0 then Namespace m @ ''/'' @ Name m else Name m)"

subsection \<open>Reasons and messages\<close>

definition errorWithParameters :: string where "errorWithParameters = ''ErrorWithParameters''"
definition errorNonexistentServiceClassReason :: string where
  "errorNonexistentServiceClassReason = ''ReferencesNonexistentServiceClass''"
definition errorNonexistentServicePlanReason :: string where
  "errorNonexistentServicePlanReason = ''ReferencesNonexistentServicePlan''"
definition errorNonexistentBrokerReason :: string where
  "errorNonexistentBrokerReason = ''ReferencesNonexistentBroker''"
definition errorAuthCredentialsReason :: string where
  "errorAuthCredentialsReason = ''ErrorGettingAuthCredentials''"
definition errorFindingNamespaceInstanceReason :: string where
  "errorFindingNamespaceInstanceReason = ''ErrorFindingNamespaceForInstance''"
definition errorProvisionCallFailedReason :: string where
  "errorProvisionCallFailedReason = ''ProvisionCallFailed''"
definition errorErrorCallingProvisionReason :: string where
  "errorErrorCallingProvisionReason = ''ErrorCallingProvision''"
definition errorDeprovisionCalledReason :: string where
  "errorDeprovisionCalledReason = ''DeprovisionCallFailed''"
definition errorPollingLastOperationReason :: string where
  "errorPollingLastOperationReason = ''ErrorPollingLastOperation''"
definition errorFetchingCatalogReason :: string where
  "errorFetchingCatalogReason = ''ErrorFetchingCatalog''"
definition errorFetchingCatalogMessage :: string where
  "errorFetchingCatalogMessage = ''Error fetching catalog. ''"
definition errorSyncingCatalogReason :: string where
  "errorSyncingCatalogReason = ''ErrorSyncingCatalog''"
definition errorSyncingCatalogMessage :: string where
  "errorSyncingCatalogMessage = ''Error syncing catalog from ClusterServiceBroker. ''"
definition errorListingServiceClassesReason :: string where
  "errorListingServiceClassesReason = ''ErrorListingServiceClasses''"
definition errorListingServiceClassesMessage :: string where
  "errorListingServiceClassesMessage = ''Error listing service classes.''"
definition errorListingServicePlansReason :: string where
  "errorListingServicePlansReason = ''ErrorListingServicePlans''"
definition errorListingServicePlansMessage :: string where
  "errorListingServicePlansMessage = ''Error listing service plans.''"
definition errorDeletingServiceClassReason :: string where
  "errorDeletingServiceClassReason = ''ErrorDeletingServiceClass''"
definition errorDeletingServiceClassMessage :: string where
  "errorDeletingServiceClassMessage = ''Error deleting service class.''"
definition errorDeletingServicePlanReason :: string where
  "errorDeletingServicePlanReason = ''ErrorDeletingServicePlan''"
definition errorDeletingServicePlanMessage :: string where
  "errorDeletingServicePlanMessage = ''Error deleting service plan.''"
definition errorReconciliationRetryTimeoutReason :: string where
  "errorReconciliationRetryTimeoutReason = ''ErrorReconciliationRetryTimeout''"
definition successDeprovisionReason :: string where
  "successDeprovisionReason = ''DeprovisionedSuccessfully''"
definition successDeprovisionMessage :: string where
  "successDeprovisionMessage = ''The instance was deprovisioned successfully''"
definition successProvisionReason :: string where
  "successProvisionReason = ''ProvisionedSuccessfully''"
definition successProvisionMessage :: string where
  "successProvisionMessage = ''The instance was provisioned successfully''"
definition successFetchedCatalogReason :: string where
  "successFetchedCatalogReason = ''FetchedCatalog''"
definition successFetchedCatalogMessage :: string where
  "successFetchedCatalogMessage = ''Successfully fetched catalog entries from broker.''"
definition successClusterServiceBrokerDeletedReason :: string where
  "successClusterServiceBrokerDeletedReason = ''DeletedSuccessfully''"
definition successClusterServiceBrokerDeletedMessage :: string where
  "successClusterServiceBrokerDeletedMessage = ''The broker %v was deleted successfully.''"
definition asyncProvisioningReason :: string where
  "asyncProvisioningReason = ''Provisioning''"
definition asyncProvisioningMessage :: string where
  "asyncProvisioningMessage = ''The instance is being provisioned asynchronously''"
definition asyncDeprovisioningReason :: string where
  "asyncDeprovisioningReason = ''Deprovisioning''"
definition asyncDeprovisioningMessage :: string where
  "asyncDeprovisioningMessage = ''The instance is being deprovisioned asynchronously''"
definition EventTypeNormal :: string where "EventTypeNormal = ''Normal''"
definition EventTypeWarning :: string where "EventTypeWarning = ''Warning''"
definition ContextProfilePlatformKubernetes :: string where
  "ContextProfilePlatformKubernetes = ''kubernetes''"

text \<open>
  \<open>fmt.Sprintf\<close>, \<open>fmt.Errorf\<close> and \<open>err.Error()\<close>: the text of a formatted
  message is its format string followed by the string arguments; the rendering of other
  arguments (errors, numbers, structures) is left out, as no branch of the controller
  reads a message back. Log lines (\<open>glog\<close>) have no effect and are not modelled.
\<close>

definition Sprintf :: "string \<Rightarrow> string list \<Rightarrow> string" where
  "Sprintf format args = concat (format # map (\<lambda>a. '' | '' @ a) args)"

section \<open>Instance reconciler\<close>

text \<open>
  \<open>api.Scheme.DeepCopy\<close> of an instance or a broker is the value itself (HOL values are
  never shared), and it does not fail for these registered types.
\<close>

definition setInstanceCondition ::
  "controller \<Rightarrow> ServiceCatalogInstance \<Rightarrow> InstanceConditionType \<Rightarrow> ConditionStatus \<Rightarrow>
     string \<Rightarrow> string \<Rightarrow> world \<Rightarrow> ServiceCatalogInstance \<times> world" where
  "setInstanceCondition c toUpdate conditionType status reason message w =
     (let (t, w1) = Now c w
      in (setInstanceConditionInternal toUpdate conditionType status reason message t, w1))"

definition updateInstanceStatus ::
  "controller \<Rightarrow> ServiceCatalogInstance \<Rightarrow> world \<Rightarrow> error option \<times> world" where
  "updateInstanceStatus c toUpdate w = UpdateStatus c toUpdate w"

definition updateInstanceCondition ::
  "controller \<Rightarrow> ServiceCatalogInstance \<Rightarrow> InstanceConditionType \<Rightarrow> ConditionStatus \<Rightarrow>
     string \<Rightarrow> string \<Rightarrow> world \<Rightarrow> error option \<times> world" where
  "updateInstanceCondition c instance conditionType status reason message w =
     (let (toUpdate, w1) = setInstanceCondition c instance conditionType status reason message w
      in UpdateStatus c toUpdate w1)"

text \<open>
  \<open>sets.NewString(fs...)\<close>, \<open>Delete(token)\<close>, \<open>List()\<close>: the remaining strings
  without duplicates, sorted.
\<close>

definition finalizersWithout :: "string \<Rightarrow> string list \<Rightarrow> string list" where
  "finalizersWithout token fs = sort (remdups (removeAll token fs))"

text \<open>
  \<open>updateInstanceFinalizers\<close> first gets the latest version of the instance. When the
  \<open>Get\<close> fails the error is logged and the function goes on with the object the client
  returned with the error.
\<close>

definition updateInstanceFinalizers ::
  "controller \<Rightarrow> ServiceCatalogInstance \<Rightarrow> string list \<Rightarrow> world \<Rightarrow> error option \<times> world" where
  "updateInstanceFinalizers c instance finalizers w =
     (let w1 = act (ActGet (Namespace (ObjectMeta instance)) (Name (ObjectMeta instance))) w;
          latest = (case instanceGetFailure c (writes w1) of
                      None \<Rightarrow> instanceServer w1
                    | Some returned \<Rightarrow> returned);
          toUpdate = latest\<lparr>ObjectMeta := (ObjectMeta latest)\<lparr>Finalizers := finalizers\<rparr>\<rparr>
      in UpdateStatus c toUpdate w1)"

fun isInstanceFailedLoop :: "InstanceConditionType Condition list \<Rightarrow> bool" where
  "isInstanceFailedLoop [] = False"
| "isInstanceFailedLoop (condition # rest) =
     (if CondType condition = InstanceConditionFailed \<and> CondStatus condition = ConditionTrue
      then True else isInstanceFailedLoop rest)"

definition isInstanceFailed :: "ServiceCatalogInstance \<Rightarrow> bool" where
  "isInstanceFailed instance = isInstanceFailedLoop (Conditions (Status instance))"

text \<open>
  Modelled from the spec: \<open>getServiceClassPlanAndBroker\<close>, which the instance
  reconciler calls, is not among the sources under that name. It is the resolver of the
  spec (2, 4.6): it looks up the class, the plan and the broker an instance refers to and
  builds a client for that broker; a reference that does not resolve, or credentials that
  cannot be read, set the ready condition to false with the reason of the failure, emit a
  warning event and return the error. The steps and their order are those of
  \<open>getServiceClassPlanAndServiceBroker\<close> in controller.go, the same resolver under
  later type names. The secret lookup behind the credentials is a collaborator.
\<close>

definition getServiceClassPlanAndBroker ::
  "controller \<Rightarrow> ServiceCatalogInstance \<Rightarrow> world \<Rightarrow>
     (error + (ServiceClass \<times> ServicePlan \<times> string \<times> BrokerClient)) \<times> world" where
  "getServiceClassPlanAndBroker c instance w =
     (case serviceClassLister c (ServiceClassName (Spec instance)) of
        Inl err \<Rightarrow>
          (let s = Sprintf ''Instance %s/%s references a non-existent ServiceClass %q''
                     [Namespace (ObjectMeta instance), Name (ObjectMeta instance),
                      ServiceClassName (Spec instance)];
               (uerr, w1) = updateInstanceCondition c instance InstanceConditionReady ConditionFalse
                  errorNonexistentServiceClassReason
                  (''The instance references a ServiceClass that does not exist. '' @ s) w;
               w2 = act (ActEvent EventTypeWarning errorNonexistentServiceClassReason s) w1
           in (Inl err, w2))
      | Inr serviceClass \<Rightarrow>
     (case servicePlanLister c (PlanName (Spec instance)) of
        Inl err \<Rightarrow>
          (let s = Sprintf ''Instance %s/%s references a non-existent ServicePlan %q on ServiceClass %q''
                     [Namespace (ObjectMeta instance), Name (ObjectMeta instance),
                      PlanName (Spec instance), Name (ObjectMeta serviceClass)];
               (uerr, w1) = updateInstanceCondition c instance InstanceConditionReady ConditionFalse
                  ''ReferencesNonexistentServicePlan''
                  (''The instance references a ServicePlan that does not exist. '' @ s) w;
               w2 = act (ActEvent EventTypeWarning errorNonexistentServicePlanReason s) w1
           in (Inl (Error s), w2))
      | Inr servicePlan \<Rightarrow>
     (case brokerLister c (ClusterServiceBrokerName (Spec serviceClass)) of
        Inl err \<Rightarrow>
          (let s = Sprintf ''Instance %s/%s references a non-existent broker %q''
                     [Namespace (ObjectMeta instance), Name (ObjectMeta instance),
                      ClusterServiceBrokerName (Spec serviceClass)];
               (uerr, w1) = updateInstanceCondition c instance InstanceConditionReady ConditionFalse
                  errorNonexistentBrokerReason
                  (''The instance references a Broker that does not exist. '' @ s) w;
               w2 = act (ActEvent EventTypeWarning errorNonexistentBrokerReason s) w1
           in (Inl err, w2))
      | Inr broker \<Rightarrow>
     (case getAuthCredentialsFromBroker c broker of
        Inl err \<Rightarrow>
          (let s = Sprintf ''Error getting broker auth credentials for broker %q: %s''
                     [Name (ObjectMeta broker)];
               (uerr, w1) = updateInstanceCondition c instance InstanceConditionReady ConditionFalse
                  errorAuthCredentialsReason
                  (''Error getting auth credentials. '' @ s) w;
               w2 = act (ActEvent EventTypeWarning errorAuthCredentialsReason s) w1
           in (Inl err, w2))
      | Inr authConfig \<Rightarrow>
     (case brokerClientCreateFunc c (NewClientConfigurationForBroker broker authConfig) of
        Inl err \<Rightarrow> (Inl err, w)
      | Inr brokerClient \<Rightarrow>
          (Inr (serviceClass, servicePlan, Name (ObjectMeta broker), brokerClient), w))))))"

text \<open>
  The part of \<open>reconcileInstanceDelete\<close> that handles the answer of a deprovision call
  that did not fail: the bookkeeping of an asynchronous response, and then, in either
  case, the success condition, its status update and the event. The result is the error
  that makes \<open>reconcileInstanceDelete\<close> return early, if any.
\<close>

definition deprovisionResponded ::
  "controller \<Rightarrow> ServiceCatalogInstance \<Rightarrow> ServiceCatalogInstance \<Rightarrow> DeprovisionResponse \<Rightarrow>
     world \<Rightarrow> error option \<times> world" where
  "deprovisionResponded c instance toUpdate response w =
     (let (aerr, toUpdate1, w1) =
            (if DeprovisionAsync response then
               (let toUpdate' =
                      (case DeprovisionOperationKey response of
                         None \<Rightarrow> toUpdate
                       | Some key \<Rightarrow>
                           (if key \<noteq> [] then
                              toUpdate\<lparr>Status := (Status toUpdate)\<lparr>LastOperation := Some key\<rparr>\<rparr>
                            else toUpdate));
                    toUpdate'' = toUpdate'\<lparr>Status := (Status toUpdate')\<lparr>AsyncOpInProgress := True\<rparr>\<rparr>;
                    (toUpdate''', w') = setInstanceCondition c toUpdate'' InstanceConditionReady
                       ConditionFalse asyncDeprovisioningReason asyncDeprovisioningMessage w;
                    (err, w'') = updateInstanceStatus c toUpdate''' w'
                in (err, toUpdate''', w''))
             else (None, toUpdate, w))
      in case aerr of
           Some err \<Rightarrow> (Some err, w1)
         | None \<Rightarrow>
             (let (toUpdate2, w2) = setInstanceCondition c toUpdate1 InstanceConditionReady
                     ConditionFalse successDeprovisionReason successDeprovisionMessage w1;
                  (err, w3) = updateInstanceStatus c toUpdate2 w2
              in case err of
                   Some e \<Rightarrow> (Some e, w3)
                 | None \<Rightarrow>
                     (None, act (ActEvent EventTypeNormal successDeprovisionReason
                                   successDeprovisionMessage) w3)))"

text \<open>
  The part of \<open>reconcileInstanceDelete\<close> that handles a deprovision call that failed:
  ready becomes unknown, the status is updated (the result of the update is not read), a
  warning event is emitted and the error of the call is returned. The two branches of the
  source (an HTTP error of the broker, any other error) differ in the text only.
\<close>

definition deprovisionFailed ::
  "controller \<Rightarrow> ServiceCatalogInstance \<Rightarrow> ServiceCatalogInstance \<Rightarrow> ServiceClass \<Rightarrow> string \<Rightarrow>
     error \<Rightarrow> world \<Rightarrow> error option \<times> world" where
  "deprovisionFailed c instance toUpdate serviceClass brokerName err w =
     (let s = (if IsHTTPError err then
                 Sprintf ''Error deprovisioning Instance %s/%s of ServiceClass %q at Broker %q with status code %d: ErrorMessage: %v, Description: %v''
                   [Namespace (ObjectMeta instance), Name (ObjectMeta instance),
                    Name (ObjectMeta serviceClass), brokerName]
               else
                 Sprintf ''Error deprovisioning Instance %s/%s of ServiceClass %q at Broker %q: %s''
                   [Namespace (ObjectMeta instance), Name (ObjectMeta instance),
                    Name (ObjectMeta serviceClass), brokerName]);
          (toUpdate1, w1) = setInstanceCondition c toUpdate InstanceConditionReady ConditionUnknown
             errorDeprovisionCalledReason (''Deprovision call failed. '' @ s) w;
          (uerr, w2) = updateInstanceStatus c toUpdate1 w1;
          w3 = act (ActEvent EventTypeWarning errorDeprovisionCalledReason s) w2
      in (Some err, w3))"

definition reconcileInstanceDelete ::
  "controller \<Rightarrow> ServiceCatalogInstance \<Rightarrow> world \<Rightarrow> error option \<times> world" where
  "reconcileInstanceDelete c instance w =
     (if DeletionTimestamp (ObjectMeta instance) = None then (None, w)
      else if FinalizerServiceCatalog \<notin> set (Finalizers (ObjectMeta instance)) then (None, w)
      else if \<not> AsyncOpInProgress (Status instance) \<and> Checksum (Status instance) = None then
        updateInstanceFinalizers c instance
          (finalizersWithout FinalizerServiceCatalog (Finalizers (ObjectMeta instance))) w
      else
        (case getServiceClassPlanAndBroker c instance w of
           (Inl err, w1) \<Rightarrow> (Some err, w1)
         | (Inr (serviceClass, servicePlan, brokerName, brokerClient), w1) \<Rightarrow>
             (let toUpdate = instance;
                  request = DeprovisionRequest (ExternalID (Spec instance))
                              (ClassExternalID (Spec serviceClass))
                              (PlanExternalID (Spec servicePlan)) True;
                  (derr, w2) =
                    (if \<not> isInstanceFailed instance then
                       (let w' = act (ActBroker request) w1
                        in case DeprovisionInstance brokerClient request of
                             Inl err \<Rightarrow>
                               deprovisionFailed c instance toUpdate serviceClass brokerName err w'
                           | Inr response \<Rightarrow>
                               deprovisionResponded c instance toUpdate response w')
                     else (None, w1))
              in case derr of
                   Some err \<Rightarrow> (Some err, w2)
                 | None \<Rightarrow>
                     updateInstanceFinalizers c instance
                       (finalizersWithout FinalizerServiceCatalog
                          (Finalizers (ObjectMeta instance))) w2)))"

text \<open>
  \<open>pollInstance\<close>: asks the broker for the state of the last operation and maps the
  answer. The error returned while the operation is in progress is what keeps the key
  being retried.
\<close>

definition pollInstance ::
  "controller \<Rightarrow> ServiceClass \<Rightarrow> ServicePlan \<Rightarrow> string \<Rightarrow> BrokerClient \<Rightarrow>
     ServiceCatalogInstance \<Rightarrow> world \<Rightarrow> error option \<times> world" where
  "pollInstance c serviceClass servicePlan brokerName brokerClient instance w =
     (let deleting = (DeletionTimestamp (ObjectMeta instance) \<noteq> None);
          request = LastOperationRequest (ExternalID (Spec instance))
                      (Some (ClassExternalID (Spec serviceClass)))
                      (Some (PlanExternalID (Spec servicePlan)))
                      (case LastOperation (Status instance) of
                         None \<Rightarrow> None
                       | Some key \<Rightarrow> (if key \<noteq> [] then Some key else None));
          w0 = act (ActBroker request) w
      in case PollLastOperation brokerClient request of
           Inl err \<Rightarrow>
             (if IsGoneError err \<and> deleting then
                (let toUpdate = instance\<lparr>Status := (Status instance)\<lparr>AsyncOpInProgress := False\<rparr>\<rparr>;
                     (uerr, w1) = updateInstanceCondition c toUpdate InstanceConditionReady
                        ConditionFalse successDeprovisionReason successDeprovisionMessage w0;
                     w2 = (if FinalizerServiceCatalog \<in> set (Finalizers (ObjectMeta toUpdate)) then
                             snd (updateInstanceFinalizers c toUpdate
                                    (finalizersWithout FinalizerServiceCatalog
                                       (Finalizers (ObjectMeta toUpdate))) w1)
                           else w1)
                 in (None, act (ActEvent EventTypeNormal successDeprovisionReason
                                  successDeprovisionMessage) w2))
              else
                (let s = Sprintf ''Error polling last operation for instance %v/%v: %v''
                           [Namespace (ObjectMeta instance), Name (ObjectMeta instance)]
                 in (Some err, act (ActEvent EventTypeWarning errorPollingLastOperationReason s) w0)))
         | Inr response \<Rightarrow>
             (case State response of
                StateInProgress \<Rightarrow>
                  (let w1 =
                         (case Description response of
                            None \<Rightarrow> w0
                          | Some description \<Rightarrow>
                              (let toUpdate = instance\<lparr>Status := (Status instance)
                                                \<lparr>AsyncOpInProgress := True\<rparr>\<rparr>;
                                   reason = (if deleting then asyncDeprovisioningMessage
                                             else asyncProvisioningReason);
                                   message = Sprintf ''%s (%s)'' [asyncProvisioningMessage, description]
                               in snd (updateInstanceCondition c toUpdate InstanceConditionReady
                                         ConditionFalse reason message w0)))
                   in (Some (Error (Sprintf ''last operation not completed (still in progress) for %v/%v''
                                      [Namespace (ObjectMeta instance), Name (ObjectMeta instance)])),
                       w1))
              | StateSucceeded \<Rightarrow>
                  (let toUpdate = instance\<lparr>Status := (Status instance)\<lparr>AsyncOpInProgress := False\<rparr>\<rparr>
                   in if deleting then
                        (case updateInstanceCondition c toUpdate InstanceConditionReady
                                ConditionFalse successDeprovisionReason successDeprovisionMessage w0 of
                           (Some err, w1) \<Rightarrow> (Some err, w1)
                         | (None, w1) \<Rightarrow>
                             (let w2 = (if FinalizerServiceCatalog
                                             \<in> set (Finalizers (ObjectMeta toUpdate)) then
                                          snd (updateInstanceFinalizers c toUpdate
                                                 (finalizersWithout FinalizerServiceCatalog
                                                    (Finalizers (ObjectMeta toUpdate))) w1)
                                        else w1)
                              in (None, act (ActEvent EventTypeNormal successDeprovisionReason
                                               successDeprovisionMessage) w2)))
                      else
                        (None, snd (updateInstanceCondition c toUpdate InstanceConditionReady
                                      ConditionTrue successProvisionReason successProvisionMessage w0)))
              | StateFailed \<Rightarrow>
                  (let description = (case Description response of None \<Rightarrow> [] | Some d \<Rightarrow> d);
                       s = Sprintf ''Error deprovisioning Instance %s/%s of ServiceClass %q at Broker %q: %q''
                             [Namespace (ObjectMeta instance), Name (ObjectMeta instance),
                              Name (ObjectMeta serviceClass), brokerName, description];
                       toUpdate = instance\<lparr>Status := (Status instance)\<lparr>AsyncOpInProgress := False\<rparr>\<rparr>;
                       cond = (if deleting then ConditionUnknown else ConditionFalse);
                       reason = (if deleting then errorDeprovisionCalledReason
                                 else errorProvisionCallFailedReason);
                       msg = (if deleting then ''Deprovision call failed:'' @ s
                              else ''Provision call failed: '' @ s);
                       (uerr, w1) = updateInstanceCondition c toUpdate InstanceConditionReady
                                      cond reason msg w0
                   in (None, act (ActEvent EventTypeWarning errorDeprovisionCalledReason s) w1))
              | StateOther state \<Rightarrow>
                  (Some (Error (Sprintf ''Got invalid state in LastOperationResponse: %q'' [state])),
                   w0)))"

definition pollInstanceInternal ::
  "controller \<Rightarrow> ServiceCatalogInstance \<Rightarrow> world \<Rightarrow> error option \<times> world" where
  "pollInstanceInternal c instance w =
     (case getServiceClassPlanAndBroker c instance w of
        (Inl err, w1) \<Rightarrow> (Some err, w1)
      | (Inr (serviceClass, servicePlan, brokerName, brokerClient), w1) \<Rightarrow>
          pollInstance c serviceClass servicePlan brokerName brokerClient instance w1)"

text \<open>
  The part of \<open>reconcileInstance\<close> that follows the provision call: the two kinds of
  failure, the dashboard URL, and the asynchronous and synchronous answers.
\<close>

definition provisionResponded ::
  "controller \<Rightarrow> ServiceCatalogInstance \<Rightarrow> ServiceCatalogInstance \<Rightarrow> ServiceClass \<Rightarrow> string \<Rightarrow>
     (error + ProvisionResponse) \<Rightarrow> world \<Rightarrow> error option \<times> world" where
  "provisionResponded c instance toUpdate serviceClass brokerName result w =
     (case result of
        Inl err \<Rightarrow>
          (let s = Sprintf ''Error provisioning Instance %s/%s of ServiceClass %q at Broker %q: %s''
                     [Namespace (ObjectMeta instance), Name (ObjectMeta instance),
                      Name (ObjectMeta serviceClass), brokerName]
           in if IsHTTPError err then
                (let (toUpdate1, w1) = setInstanceCondition c toUpdate InstanceConditionFailed
                        ConditionTrue ''BrokerReturnedFailure'' s w;
                     (toUpdate2, w2) = setInstanceCondition c toUpdate1 InstanceConditionReady
                        ConditionFalse errorProvisionCallFailedReason
                        (''Broker returned a failure for provision call; operation will not be retried: '' @ s) w1
                 in case updateInstanceStatus c toUpdate2 w2 of
                      (Some uerr, w3) \<Rightarrow> (Some uerr, w3)
                    | (None, w3) \<Rightarrow>
                        (None, act (ActEvent EventTypeWarning errorProvisionCallFailedReason s) w3))
              else
                (let (toUpdate1, w1) = setInstanceCondition c toUpdate InstanceConditionReady
                        ConditionFalse errorErrorCallingProvisionReason
                        (''Provision call failed and will be retried: '' @ s) w;
                     (uerr, w2) = updateInstanceStatus c toUpdate1 w1
                 in (Some err, act (ActEvent EventTypeWarning errorErrorCallingProvisionReason s) w2)))
      | Inr response \<Rightarrow>
          (let toUpdate1 =
                 (case ProvisionDashboardURL response of
                    None \<Rightarrow> toUpdate
                  | Some url \<Rightarrow>
                      (if url \<noteq> [] then
                         toUpdate\<lparr>Status := (Status toUpdate)\<lparr>DashboardURL := Some url\<rparr>\<rparr>
                       else toUpdate))
           in if ProvisionAsync response then
                (let toUpdate2 =
                       (case ProvisionOperationKey response of
                          None \<Rightarrow> toUpdate1
                        | Some key \<Rightarrow>
                            (if key \<noteq> [] then
                               toUpdate1\<lparr>Status := (Status toUpdate1)\<lparr>LastOperation := Some key\<rparr>\<rparr>
                             else toUpdate1));
                     toUpdate3 = toUpdate2\<lparr>Status := (Status toUpdate2)\<lparr>AsyncOpInProgress := True\<rparr>\<rparr>;
                     (toUpdate4, w1) = setInstanceCondition c toUpdate3 InstanceConditionReady
                        ConditionFalse asyncProvisioningReason asyncProvisioningMessage w;
                     (uerr, w2) = updateInstanceStatus c toUpdate4 w1;
                     w3 = act (ActEvent EventTypeNormal asyncProvisioningReason asyncProvisioningMessage) w2;
                     key = MetaNamespaceKey (ObjectMeta instance);
                     w4 = act (ActPollingQueueAdd key) (w3\<lparr>pollingQueue := Add key (pollingQueue w3)\<rparr>)
                 in (None, w4))
              else
                (let (toUpdate2, w1) = setInstanceCondition c toUpdate1 InstanceConditionReady
                        ConditionTrue successProvisionReason successProvisionMessage w;
                     (uerr, w2) = updateInstanceStatus c toUpdate2 w1
                 in (None, act (ActEvent EventTypeNormal successProvisionReason
                                  successProvisionMessage) w2))))"

text \<open>
  The part of \<open>reconcileInstance\<close> that adds or updates an instance once its class, plan
  and broker are known and no asynchronous operation is in progress: parameters,
  namespace, provision request.
\<close>

definition provisionInstance ::
  "controller \<Rightarrow> ServiceCatalogInstance \<Rightarrow> ServiceClass \<Rightarrow> ServicePlan \<Rightarrow> string \<Rightarrow> BrokerClient \<Rightarrow>
     world \<Rightarrow> error option \<times> world" where
  "provisionInstance c instance serviceClass servicePlan brokerName brokerClient w =
     (let toUpdate = instance
      in case (case Parameters (Spec instance) of
                 None \<Rightarrow> Inr []
               | Some raw \<Rightarrow> unmarshalParameters c raw) of
           Inl err \<Rightarrow>
             (let s = Sprintf ''Failed to unmarshal Instance parameters %s %s'' [];
                  (toUpdate1, w1) = setInstanceCondition c toUpdate InstanceConditionReady
                     ConditionFalse errorWithParameters
                     (''Error unmarshaling instance parameters. '' @ s) w;
                  (uerr, w2) = updateInstanceStatus c toUpdate1 w1
              in (Some err, act (ActEvent EventTypeWarning errorWithParameters s) w2))
         | Inr parameters \<Rightarrow>
             (let w0 = act (ActGetNamespace (Namespace (ObjectMeta instance))) w
              in case getNamespace c (Namespace (ObjectMeta instance)) of
                   Inl err \<Rightarrow>
                     (let s = Sprintf ''Failed to get namespace %q during instance create: %s''
                                [Namespace (ObjectMeta instance)];
                          (toUpdate1, w1) = setInstanceCondition c toUpdate InstanceConditionReady
                             ConditionFalse errorFindingNamespaceInstanceReason
                             (''Error finding namespace for instance. '' @ s) w0;
                          (uerr, w2) = updateInstanceStatus c toUpdate1 w1
                      in (Some err,
                          act (ActEvent EventTypeWarning errorFindingNamespaceInstanceReason s) w2))
                 | Inr nsUID \<Rightarrow>
                     (let request = ProvisionRequest True (ExternalID (Spec instance))
                                      (ClassExternalID (Spec serviceClass))
                                      (PlanExternalID (Spec servicePlan))
                                      parameters nsUID nsUID
                                      [(''platform'', ContextProfilePlatformKubernetes),
                                       (''namespace'', Namespace (ObjectMeta instance))];
                          w1 = act (ActBroker request) w0
                      in provisionResponded c instance toUpdate serviceClass brokerName
                           (ProvisionInstance brokerClient request) w1)))"

definition reconcileInstance ::
  "controller \<Rightarrow> ServiceCatalogInstance \<Rightarrow> world \<Rightarrow> error option \<times> world" where
  "reconcileInstance c instance w =
     (if isInstanceFailed instance \<and> DeletionTimestamp (ObjectMeta instance) = None then (None, w)
      else if \<not> AsyncOpInProgress (Status instance)
              \<and> Checksum (Status instance) \<noteq> None
              \<and> DeletionTimestamp (ObjectMeta instance) = None
              \<and> Some (InstanceSpecChecksum c (Spec instance)) = Checksum (Status instance)
           then (None, w)
      else if DeletionTimestamp (ObjectMeta instance) \<noteq> None then
        reconcileInstanceDelete c instance w
      else
        (case getServiceClassPlanAndBroker c instance w of
           (Inl err, w1) \<Rightarrow> (Some err, w1)
         | (Inr (serviceClass, servicePlan, brokerName, brokerClient), w1) \<Rightarrow>
             (if AsyncOpInProgress (Status instance) then
                pollInstance c serviceClass servicePlan brokerName brokerClient instance w1
              else
                provisionInstance c instance serviceClass servicePlan brokerName brokerClient w1)))"

section \<open>Worker loop\<close>

definition maxRetries :: nat where
  "maxRetries = 15"

text \<open>
  One run of the function the loop of \<open>worker\<close> calls: take a key, reconcile it, and
  on an error add it again with rate limiting unless it was requeued \<open>maxRetries\<close>
  times already, in which case the queue forgets it. \<open>Done\<close> is deferred, so it runs
  last. The answer is whether the loop must exit, with the queue and the reconciler's
  state afterwards; \<open>None\<close> when \<open>Get\<close> blocks.
\<close>

definition workerIteration ::
  "(string \<Rightarrow> 's \<Rightarrow> error option \<times> 's) \<Rightarrow> nat \<Rightarrow> bool \<Rightarrow> workqueue \<times> 's \<Rightarrow>
     (bool \<times> workqueue \<times> 's) option" where
  "workerIteration reconciler retries forgetAfterSuccess qs =
     (case Get (fst qs) of
        None \<Rightarrow> None
      | Some ((key, quit), q1) \<Rightarrow>
          (if quit then Some (True, q1, snd qs)
           else
             (let (err, s1) = reconciler key (snd qs);
                  q2 = (case err of
                          None \<Rightarrow> (if forgetAfterSuccess then Forget key q1 else q1)
                        | Some e \<Rightarrow>
                            (if NumRequeues q1 key < retries then AddRateLimited key q1
                             else Forget key q1))
              in Some (False, Done key q2, s1))))"

text \<open>
  The loop \<open>for !exit\<close> of \<open>worker\<close>, with fuel: \<open>None\<close> when the fuel runs out or
  \<open>Get\<close> blocks before the queue is shut down.
\<close>

fun worker ::
  "nat \<Rightarrow> (string \<Rightarrow> 's \<Rightarrow> error option \<times> 's) \<Rightarrow> nat \<Rightarrow> bool \<Rightarrow> workqueue \<times> 's \<Rightarrow>
     (workqueue \<times> 's) option" where
  "worker 0 reconciler retries forgetAfterSuccess qs = None"
| "worker (Suc fuel) reconciler retries forgetAfterSuccess qs =
     (case workerIteration reconciler retries forgetAfterSuccess qs of
        None \<Rightarrow> None
      | Some (exit, q1, s1) \<Rightarrow>
          (if exit then Some (q1, s1)
           else worker fuel reconciler retries forgetAfterSuccess (q1, s1)))"

text \<open>
  \<open>reconcileInstanceKey\<close>: the instance lister answers the server's copy of the instance
  when the key is its key, and not-found otherwise.
\<close>

definition reconcileInstanceKey :: "controller \<Rightarrow> string \<Rightarrow> world \<Rightarrow> error option \<times> world" where
  "reconcileInstanceKey c key w =
     (if MetaNamespaceKey (ObjectMeta (instanceServer w)) \<noteq> key then (None, w)
      else reconcileInstance c (instanceServer w) w)"

text \<open>
  Modelled from the spec: \<open>requeueServiceInstanceForPoll\<close>, the reconcile function that
  \<open>Run\<close> binds to the polling queue, is not among the sources. The spec (4.4, 4.7) has
  the polling queue re-check a resource with an operation in flight through the
  asynchronous poll reconciler, whose error makes the queue retry with back-off: the
  instance of the key is looked up (a missing instance is no work) and polled with
  \<open>pollInstanceInternal\<close>.
\<close>

definition requeueServiceInstanceForPoll ::
  "controller \<Rightarrow> string \<Rightarrow> world \<Rightarrow> error option \<times> world" where
  "requeueServiceInstanceForPoll c key w =
     (if MetaNamespaceKey (ObjectMeta (instanceServer w)) \<noteq> key then (None, w)
      else pollInstanceInternal c (instanceServer w) w)"

text \<open>
  Rounds of the polling worker: in each round the back-off delays of the waiting keys
  pass and the worker function takes one key from the polling queue
  (\<open>createWorker(c.pollingQueue, "Poller", maxRetries, false, ...)\<close>). \<open>None\<close> when a
  round finds nothing to take.
\<close>

fun pollingRounds ::
  "nat \<Rightarrow> controller \<Rightarrow> workqueue \<times> world \<Rightarrow> (workqueue \<times> world) option" where
  "pollingRounds 0 c qs = Some qs"
| "pollingRounds (Suc n) c qs =
     (case workerIteration (requeueServiceInstanceForPoll c) maxRetries False
             (delaysElapse (fst qs), snd qs) of
        None \<Rightarrow> None
      | Some (exit, q1, s1) \<Rightarrow> pollingRounds n c (q1, s1))"

section \<open>Catalog conversion\<close>

text \<open>
  \<open>convertServicePlans\<close> and \<open>convertCatalog\<close> return their results together with
  an error; on an error the results are nil, so the model is a sum. \<open>json.Marshal\<close> is
  a parameter.
\<close>

definition emptyObjectMeta :: ObjectMeta where
  "emptyObjectMeta = \<lparr>Namespace = [], Name = [], Generation = 0, DeletionTimestamp = None,
                       Finalizers = []\<rparr>"

text \<open>
  The marshalling of an optional schema: \<open>Inr None\<close> when the pointer or its
  parameters are nil, so that nothing is set.
\<close>

definition marshalSchema ::
  "(Value \<Rightarrow> error + string) \<Rightarrow> string \<Rightarrow> InputParameters option \<Rightarrow> error + string option" where
  "marshalSchema marshal what schema =
     (case schema of
        None \<Rightarrow> Inr None
      | Some input \<Rightarrow>
          (case SchemaParameters input of
             None \<Rightarrow> Inr None
           | Some parameters \<Rightarrow>
               (case marshal parameters of
                  Inl err \<Rightarrow> Inl (Error (Sprintf ''Failed to marshal %s schema %+v %v'' [what]))
                | Inr raw \<Rightarrow> Inr (Some raw))))"

text \<open>The body of the loop of \<open>convertServicePlans\<close>, for one plan.\<close>

definition convertServicePlan ::
  "(Value \<Rightarrow> error + string) \<Rightarrow> Plan \<Rightarrow> string \<Rightarrow> error + ServicePlan" where
  "convertServicePlan marshal plan serviceClassID =
     (let servicePlan =
            \<lparr>ObjectMeta = emptyObjectMeta\<lparr>Name := PlanID plan\<rparr>,
             Spec = \<lparr>PlanClusterServiceBrokerName = [],
                      PlanExternalName = OsbPlanName plan,
                      PlanExternalID = PlanID plan,
                      PlanFree = (case OsbPlanFree plan of None \<Rightarrow> False | Some b \<Rightarrow> b),
                      PlanDescription = OsbPlanDescription plan,
                      PlanBindable = OsbPlanBindable plan,
                      ServiceClassRef = serviceClassID,
                      PlanExternalMetadata = None,
                      ServiceInstanceCreateParameterSchema = None,
                      ServiceInstanceUpdateParameterSchema = None,
                      ServiceInstanceCredentialCreateParameterSchema = None\<rparr>,
             Status = ()\<rparr>
      in case (case OsbPlanMetadata plan of
                 None \<Rightarrow> Inr None
               | Some metadata \<Rightarrow>
                   (case marshal metadata of
                      Inl err \<Rightarrow> Inl (Error (Sprintf ''Failed to marshal metadata %+v %v'' []))
                    | Inr raw \<Rightarrow> Inr (Some raw))) of
           Inl err \<Rightarrow> Inl err
         | Inr metadata \<Rightarrow>
             (let servicePlan1 = servicePlan\<lparr>Spec := (Spec servicePlan)
                                   \<lparr>PlanExternalMetadata := metadata\<rparr>\<rparr>
              in case OsbAlphaParameterSchemas plan of
                   None \<Rightarrow> Inr servicePlan1
                 | Some schemas \<Rightarrow>
                     (case (case ServiceInstances schemas of
                              None \<Rightarrow> Inr servicePlan1
                            | Some instanceSchemas \<Rightarrow>
                                (case marshalSchema marshal ''instance create''
                                        (SchemaCreate instanceSchemas) of
                                   Inl err \<Rightarrow> Inl err
                                 | Inr create \<Rightarrow>
                                     (case marshalSchema marshal ''instance update''
                                             (SchemaUpdate instanceSchemas) of
                                        Inl err \<Rightarrow> Inl err
                                      | Inr update \<Rightarrow>
                                          Inr (servicePlan1\<lparr>Spec := (Spec servicePlan1)
                                                 \<lparr>ServiceInstanceCreateParameterSchema := create,
                                                  ServiceInstanceUpdateParameterSchema := update\<rparr>\<rparr>)))) of
                        Inl err \<Rightarrow> Inl err
                      | Inr servicePlan2 \<Rightarrow>
                          (case ServiceBindings schemas of
                             None \<Rightarrow> Inr servicePlan2
                           | Some bindingSchemas \<Rightarrow>
                               (case marshalSchema marshal ''binding create''
                                       (BindingSchemaCreate bindingSchemas) of
                                  Inl err \<Rightarrow> Inl err
                                | Inr create \<Rightarrow>
                                    Inr (servicePlan2\<lparr>Spec := (Spec servicePlan2)
                                           \<lparr>ServiceInstanceCredentialCreateParameterSchema :=
                                              create\<rparr>\<rparr>))))))"

fun convertServicePlansLoop ::
  "(Value \<Rightarrow> error + string) \<Rightarrow> Plan list \<Rightarrow> string \<Rightarrow> error + ServicePlan list" where
  "convertServicePlansLoop marshal [] serviceClassID = Inr []"
| "convertServicePlansLoop marshal (plan # rest) serviceClassID =
     (case convertServicePlan marshal plan serviceClassID of
        Inl err \<Rightarrow> Inl err
      | Inr servicePlan \<Rightarrow>
          (case convertServicePlansLoop marshal rest serviceClassID of
             Inl err \<Rightarrow> Inl err
           | Inr servicePlans \<Rightarrow> Inr (servicePlan # servicePlans)))"

definition convertServicePlans ::
  "(Value \<Rightarrow> error + string) \<Rightarrow> Plan list \<Rightarrow> string \<Rightarrow> error + ServicePlan list" where
  "convertServicePlans marshal plans serviceClassID =
     (if 0 = length plans then
        Inl (Error (Sprintf ''ServiceClass %q must have at least one plan'' [serviceClassID]))
      else convertServicePlansLoop marshal plans serviceClassID)"

text \<open>The body of the loop of \<open>convertCatalog\<close>, for one service: its class and its plans.\<close>

definition convertService ::
  "(Value \<Rightarrow> error + string) \<Rightarrow> Service \<Rightarrow> error + (ServiceClass \<times> ServicePlan list)" where
  "convertService marshal svc =
     (let serviceClass =
            \<lparr>ObjectMeta = emptyObjectMeta,
             Spec = \<lparr>ClusterServiceBrokerName = [],
                      ClassBindable = ServiceBindable svc,
                      ClassPlanUpdatable =
                        (case ServicePlanUpdatable svc of None \<Rightarrow> False | Some b \<Rightarrow> b),
                      ClassExternalID = ServiceID svc,
                      ClassExternalName = ServiceName svc,
                      ClassTags = ServiceTags svc,
                      ClassDescription = ServiceDescription svc,
                      ClassRequires = ServiceRequires svc,
                      ClassExternalMetadata = None\<rparr>,
             Status = ()\<rparr>
      in case (case ServiceMetadata svc of
                 None \<Rightarrow> Inr None
               | Some metadata \<Rightarrow>
                   (case marshal metadata of
                      Inl err \<Rightarrow> Inl (Error (Sprintf ''Failed to marshal metadata %+v %v'' []))
                    | Inr raw \<Rightarrow> Inr (Some raw))) of
           Inl err \<Rightarrow> Inl err
         | Inr metadata \<Rightarrow>
             (let serviceClass1 = serviceClass\<lparr>Spec := (Spec serviceClass)
                                    \<lparr>ClassExternalMetadata := metadata\<rparr>\<rparr>;
                  serviceClass2 = serviceClass1\<lparr>ObjectMeta := (ObjectMeta serviceClass1)
                                    \<lparr>Name := ServiceID svc\<rparr>\<rparr>
              in case convertServicePlans marshal (Plans svc) (Name (ObjectMeta serviceClass2)) of
                   Inl err \<Rightarrow> Inl err
                 | Inr plans \<Rightarrow> Inr (serviceClass2, plans)))"

fun convertCatalogLoop ::
  "(Value \<Rightarrow> error + string) \<Rightarrow> Service list \<Rightarrow> error + (ServiceClass list \<times> ServicePlan list)" where
  "convertCatalogLoop marshal [] = Inr ([], [])"
| "convertCatalogLoop marshal (svc # rest) =
     (case convertService marshal svc of
        Inl err \<Rightarrow> Inl err
      | Inr (serviceClass, plans) \<Rightarrow>
          (case convertCatalogLoop marshal rest of
             Inl err \<Rightarrow> Inl err
           | Inr (serviceClasses, servicePlans) \<Rightarrow>
               Inr (serviceClass # serviceClasses, plans @ servicePlans)))"

definition convertCatalog ::
  "(Value \<Rightarrow> error + string) \<Rightarrow> CatalogResponse \<Rightarrow>
     error + (ServiceClass list \<times> ServicePlan list)" where
  "convertCatalog marshal inp = convertCatalogLoop marshal (Services inp)"

section \<open>Broker reconciler\<close>

text \<open>
  A write to the API server other than a status update of the instance: the call is
  recorded and answered by the server's n-th answer.
\<close>

definition apiWrite :: "controller \<Rightarrow> action \<Rightarrow> world \<Rightarrow> error option \<times> world" where
  "apiWrite c a w = (apiWriteErr c (writes w), (act a w)\<lparr>writes := Suc (writes w)\<rparr>)"

definition UpdateBrokerStatus ::
  "controller \<Rightarrow> ClusterServiceBroker \<Rightarrow> world \<Rightarrow> error option \<times> world" where
  "UpdateBrokerStatus c obj w =
     (case apiWrite c (ActUpdateBrokerStatus obj) w of
        (None, w1) \<Rightarrow> (None, w1\<lparr>brokerServer := obj\<rparr>)
      | (Some err, w1) \<Rightarrow> (Some err, w1))"

definition updateClusterServiceBrokerCondition ::
  "controller \<Rightarrow> ClusterServiceBroker \<Rightarrow> ServiceBrokerConditionType \<Rightarrow> ConditionStatus \<Rightarrow>
     string \<Rightarrow> string \<Rightarrow> world \<Rightarrow> error option \<times> world" where
  "updateClusterServiceBrokerCondition c broker conditionType status reason message w =
     (let (t, w1) = Now c w
      in UpdateBrokerStatus c (brokerWithCondition broker conditionType status reason message t) w1)"

text \<open>
  \<open>updateClusterServiceBrokerFinalizers\<close> first gets the latest version of the broker
  and, as for an instance, logs the error of a \<open>Get\<close> that fails and goes on with the
  object the client returned.
\<close>

definition updateClusterServiceBrokerFinalizers ::
  "controller \<Rightarrow> ClusterServiceBroker \<Rightarrow> string list \<Rightarrow> world \<Rightarrow> error option \<times> world" where
  "updateClusterServiceBrokerFinalizers c broker finalizers w =
     (let w1 = act (ActGetBroker (Name (ObjectMeta broker))) w;
          latest = (case brokerGetFailure c (writes w1) of
                      None \<Rightarrow> brokerServer w1
                    | Some returned \<Rightarrow> returned);
          toUpdate = latest\<lparr>ObjectMeta := (ObjectMeta latest)\<lparr>Finalizers := finalizers\<rparr>\<rparr>
      in UpdateBrokerStatus c toUpdate w1)"

definition reconcileServiceClassFromClusterServiceBrokerCatalog ::
  "controller \<Rightarrow> ClusterServiceBroker \<Rightarrow> ServiceClass \<Rightarrow> world \<Rightarrow> error option \<times> world" where
  "reconcileServiceClassFromClusterServiceBrokerCatalog c broker serviceClass0 w =
     (let serviceClass = serviceClass0\<lparr>Spec := (Spec serviceClass0)
                           \<lparr>ClusterServiceBrokerName := Name (ObjectMeta broker)\<rparr>\<rparr>
      in case serviceClassLister c (Name (ObjectMeta serviceClass)) of
           Inl err \<Rightarrow>
             (if IsNotFound err then apiWrite c (ActCreateServiceClass serviceClass) w
              else (Some err, w))
         | Inr existingServiceClass \<Rightarrow>
             (if ClusterServiceBrokerName (Spec existingServiceClass) \<noteq> Name (ObjectMeta broker) then
                (Some (Error (Sprintf ''ServiceClass %q for ClusterServiceBroker %q already exists for Broker %q''
                                [ClassExternalName (Spec serviceClass), Name (ObjectMeta broker),
                                 ClusterServiceBrokerName (Spec existingServiceClass)])), w)
              else if ClassExternalID (Spec existingServiceClass) \<noteq> ClassExternalID (Spec serviceClass) then
                (Some (Error (Sprintf ''ServiceClass %q already exists with OSB guid %q, received different guid %q''
                                [ClassExternalName (Spec serviceClass),
                                 Name (ObjectMeta existingServiceClass),
                                 Name (ObjectMeta serviceClass)])), w)
              else
                (let toUpdate = existingServiceClass\<lparr>Spec := (Spec existingServiceClass)
                                  \<lparr>ClassBindable := ClassBindable (Spec serviceClass),
                                   ClassPlanUpdatable := ClassPlanUpdatable (Spec serviceClass),
                                   ClassTags := ClassTags (Spec serviceClass),
                                   ClassDescription := ClassDescription (Spec serviceClass),
                                   ClassRequires := ClassRequires (Spec serviceClass)\<rparr>\<rparr>
                 in apiWrite c (ActUpdateServiceClass toUpdate) w)))"

definition reconcileServicePlan ::
  "controller \<Rightarrow> ClusterServiceBroker \<Rightarrow> ServicePlan \<Rightarrow> world \<Rightarrow> error option \<times> world" where
  "reconcileServicePlan c broker servicePlan0 w =
     (let servicePlan = servicePlan0\<lparr>Spec := (Spec servicePlan0)
                          \<lparr>PlanClusterServiceBrokerName := Name (ObjectMeta broker)\<rparr>\<rparr>
      in case servicePlanLister c (Name (ObjectMeta servicePlan)) of
           Inl err \<Rightarrow>
             (if IsNotFound err then apiWrite c (ActCreateServicePlan servicePlan) w
              else (Some err, w))
         | Inr existingServicePlan \<Rightarrow>
             (if PlanExternalID (Spec existingServicePlan) \<noteq> PlanExternalID (Spec servicePlan) then
                (Some (Error (Sprintf ''ServicePlan %q already exists with OSB guid %q, received different guid %q''
                                [Name (ObjectMeta servicePlan),
                                 PlanExternalID (Spec existingServicePlan),
                                 PlanExternalID (Spec servicePlan)])), w)
              else
                (let toUpdate = existingServicePlan\<lparr>Spec := (Spec existingServicePlan)
                                  \<lparr>PlanDescription := PlanDescription (Spec servicePlan),
                                   PlanBindable := PlanBindable (Spec servicePlan),
                                   PlanFree := PlanFree (Spec servicePlan),
                                   ServiceInstanceCreateParameterSchema :=
                                     ServiceInstanceCreateParameterSchema (Spec servicePlan),
                                   ServiceInstanceUpdateParameterSchema :=
                                     ServiceInstanceUpdateParameterSchema (Spec servicePlan),
                                   ServiceInstanceCredentialCreateParameterSchema :=
                                     ServiceInstanceCredentialCreateParameterSchema (Spec servicePlan)\<rparr>\<rparr>
                 in apiWrite c (ActUpdateServicePlan toUpdate) w)))"

text \<open>
  The two loops of \<open>reconcileClusterServiceBroker\<close> over the converted catalog. A plan
  that fails to reconcile sets ready to false without reading the result of that update;
  a class that fails returns the error of the update when the update fails too.
\<close>

fun reconcileServicePlansLoop ::
  "controller \<Rightarrow> ClusterServiceBroker \<Rightarrow> ServicePlan list \<Rightarrow> world \<Rightarrow> error option \<times> world" where
  "reconcileServicePlansLoop c broker [] w = (None, w)"
| "reconcileServicePlansLoop c broker (servicePlan # rest) w =
     (case reconcileServicePlan c broker servicePlan w of
        (Some err, w1) \<Rightarrow>
          (let s = Sprintf ''Error reconciling servicePlan %q (broker %q): %s''
                     [PlanExternalName (Spec servicePlan), Name (ObjectMeta broker)];
               w2 = act (ActEvent EventTypeWarning errorSyncingCatalogReason s) w1;
               (uerr, w3) = updateClusterServiceBrokerCondition c broker ServiceBrokerConditionReady
                  ConditionFalse errorSyncingCatalogReason (errorSyncingCatalogMessage @ s) w2
           in (Some err, w3))
      | (None, w1) \<Rightarrow> reconcileServicePlansLoop c broker rest w1)"

fun reconcileServiceClassesLoop ::
  "controller \<Rightarrow> ClusterServiceBroker \<Rightarrow> ServiceClass list \<Rightarrow> world \<Rightarrow> error option \<times> world" where
  "reconcileServiceClassesLoop c broker [] w = (None, w)"
| "reconcileServiceClassesLoop c broker (serviceClass # rest) w =
     (case reconcileServiceClassFromClusterServiceBrokerCatalog c broker serviceClass w of
        (Some err, w1) \<Rightarrow>
          (let s = Sprintf ''Error reconciling serviceClass %q (broker %q): %s''
                     [ClassExternalName (Spec serviceClass), Name (ObjectMeta broker)];
               w2 = act (ActEvent EventTypeWarning errorSyncingCatalogReason s) w1
           in case updateClusterServiceBrokerCondition c broker ServiceBrokerConditionReady
                     ConditionFalse errorSyncingCatalogReason (errorSyncingCatalogMessage @ s) w2 of
                (Some uerr, w3) \<Rightarrow> (Some uerr, w3)
              | (None, w3) \<Rightarrow> (Some err, w3))
      | (None, w1) \<Rightarrow> reconcileServiceClassesLoop c broker rest w1)"

text \<open>
  The branch of \<open>reconcileClusterServiceBroker\<close> taken when \<open>GetCatalog\<close> fails: ready
  becomes false; then the start of the failing operation is recorded if it was not, or,
  once the retry duration since that start has passed, the retries stop with the failed
  condition. \<open>now\<close> is the clock reading taken before the catalog was fetched.
\<close>

definition catalogFetchFailed ::
  "controller \<Rightarrow> ClusterServiceBroker \<Rightarrow> Time \<Rightarrow> error \<Rightarrow> world \<Rightarrow> error option \<times> world" where
  "catalogFetchFailed c broker now err w =
     (let s = Sprintf ''Error getting broker catalog for broker %q: %s'' [Name (ObjectMeta broker)];
          w1 = act (ActEvent EventTypeWarning errorFetchingCatalogReason s) w
      in case updateClusterServiceBrokerCondition c broker ServiceBrokerConditionReady
                ConditionFalse errorFetchingCatalogReason (errorFetchingCatalogMessage @ s) w1 of
           (Some uerr, w2) \<Rightarrow> (Some uerr, w2)
         | (None, w2) \<Rightarrow>
             (case OperationStartTime (Status broker) of
                None \<Rightarrow>
                  (let toUpdate = broker\<lparr>Status := (Status broker)
                                    \<lparr>OperationStartTime := Some now\<rparr>\<rparr>
                   in case UpdateBrokerStatus c toUpdate w2 of
                        (Some uerr, w3) \<Rightarrow> (Some uerr, w3)
                      | (None, w3) \<Rightarrow> (Some err, w3))
              | Some start \<Rightarrow>
                  (let (tnow, w3) = Now c w2
                   in if \<not> tnow < start + reconciliationRetryDuration c then
                        (let s2 = Sprintf ''Stopping reconciliation retries on ClusterServiceBroker %q because too much time has elapsed''
                                    [Name (ObjectMeta broker)];
                             w4 = act (ActEvent EventTypeWarning
                                         errorReconciliationRetryTimeoutReason s2) w3;
                             toUpdate = broker\<lparr>Status := (Status broker)
                                          \<lparr>OperationStartTime := None,
                                           ReconciledGeneration := Generation (ObjectMeta broker)\<rparr>\<rparr>
                         in case updateClusterServiceBrokerCondition c toUpdate
                                   ServiceBrokerConditionFailed ConditionTrue
                                   errorReconciliationRetryTimeoutReason s2 w4 of
                              (Some uerr, w5) \<Rightarrow> (Some uerr, w5)
                            | (None, w5) \<Rightarrow> (None, w5))
                      else (Some err, w3))))"

text \<open>
  The branch taken when the catalog was fetched: the start time of a failing operation is
  cleared, the catalog is converted, its plans and classes are reconciled and ready
  becomes true.
\<close>

definition catalogFetched ::
  "controller \<Rightarrow> ClusterServiceBroker \<Rightarrow> CatalogResponse \<Rightarrow> world \<Rightarrow> error option \<times> world" where
  "catalogFetched c broker brokerCatalog w =
     (case (case OperationStartTime (Status broker) of
              None \<Rightarrow> (None, w)
            | Some start \<Rightarrow>
                UpdateBrokerStatus c
                  (broker\<lparr>Status := (Status broker)\<lparr>OperationStartTime := None\<rparr>\<rparr>) w) of
        (Some uerr, w1) \<Rightarrow> (Some uerr, w1)
      | (None, w1) \<Rightarrow>
          (case convertCatalog (Marshal c) brokerCatalog of
             Inl err \<Rightarrow>
               (let s = Sprintf ''Error converting catalog payload for broker %q to service-catalog API: %s''
                          [Name (ObjectMeta broker)];
                    w2 = act (ActEvent EventTypeWarning errorSyncingCatalogReason s) w1
                in case updateClusterServiceBrokerCondition c broker ServiceBrokerConditionReady
                          ConditionFalse errorSyncingCatalogReason (errorSyncingCatalogMessage @ s) w2 of
                     (Some uerr, w3) \<Rightarrow> (Some uerr, w3)
                   | (None, w3) \<Rightarrow> (Some err, w3))
           | Inr (serviceClasses, servicePlans) \<Rightarrow>
               (if length serviceClasses = 0 then
                  (let s = Sprintf ''Error getting catalog payload for broker %q; received zero services; at least one service is required''
                             [Name (ObjectMeta broker)];
                       w2 = act (ActEvent EventTypeWarning errorSyncingCatalogReason s) w1
                   in case updateClusterServiceBrokerCondition c broker ServiceBrokerConditionReady
                             ConditionFalse errorSyncingCatalogReason
                             (errorSyncingCatalogMessage @ s) w2 of
                        (Some uerr, w3) \<Rightarrow> (Some uerr, w3)
                      | (None, w3) \<Rightarrow> (Some (Error s), w3))
                else
                  (case reconcileServicePlansLoop c broker servicePlans w1 of
                     (Some err, w2) \<Rightarrow> (Some err, w2)
                   | (None, w2) \<Rightarrow>
                       (case reconcileServiceClassesLoop c broker serviceClasses w2 of
                          (Some err, w3) \<Rightarrow> (Some err, w3)
                        | (None, w3) \<Rightarrow>
                            (case updateClusterServiceBrokerCondition c broker
                                    ServiceBrokerConditionReady ConditionTrue
                                    successFetchedCatalogReason successFetchedCatalogMessage w3 of
                               (Some uerr, w4) \<Rightarrow> (Some uerr, w4)
                             | (None, w4) \<Rightarrow>
                                 (None, act (ActEvent EventTypeNormal successFetchedCatalogReason
                                               successFetchedCatalogMessage) w4)))))))"

text \<open>
  The deletion branch: the plans of each class of this broker are deleted, then the
  class; a deletion answered not-found counts as done.
\<close>

fun deleteServicePlansLoop ::
  "controller \<Rightarrow> ClusterServiceBroker \<Rightarrow> ServiceClass \<Rightarrow> ServicePlan list \<Rightarrow> world \<Rightarrow>
     error option \<times> world" where
  "deleteServicePlansLoop c broker svcClass [] w = (None, w)"
| "deleteServicePlansLoop c broker svcClass (plan # rest) w =
     (if Name (ObjectMeta svcClass) = ServiceClassRef (Spec plan) then
        (case apiWrite c (ActDeleteServicePlan (Name (ObjectMeta plan))) w of
           (Some err, w1) \<Rightarrow>
             (if \<not> IsNotFound err then
                (let s = Sprintf ''Error deleting ServicePlan %q (ServiceClass %q): %s''
                           [Name (ObjectMeta plan), ClassExternalName (Spec svcClass)];
                     (uerr, w2) = updateClusterServiceBrokerCondition c broker
                        ServiceBrokerConditionReady ConditionUnknown
                        errorDeletingServicePlanMessage (errorDeletingServicePlanReason @ s) w1;
                     w3 = act (ActEvent EventTypeWarning errorDeletingServicePlanReason
                                 (Sprintf ''%v %v'' [errorDeletingServicePlanMessage, s])) w2
                 in (Some err, w3))
              else deleteServicePlansLoop c broker svcClass rest w1)
         | (None, w1) \<Rightarrow> deleteServicePlansLoop c broker svcClass rest w1)
      else deleteServicePlansLoop c broker svcClass rest w)"

fun deleteServiceClassesLoop ::
  "controller \<Rightarrow> ClusterServiceBroker \<Rightarrow> ServiceClass list \<Rightarrow> world \<Rightarrow> error option \<times> world" where
  "deleteServiceClassesLoop c broker [] w = (None, w)"
| "deleteServiceClassesLoop c broker (svcClass # rest) w =
     (if ClusterServiceBrokerName (Spec svcClass) = Name (ObjectMeta broker) then
        (case servicePlanListerList c of
           Inl err \<Rightarrow>
             (let (uerr, w1) = updateClusterServiceBrokerCondition c broker
                     ServiceBrokerConditionReady ConditionUnknown
                     errorListingServicePlansReason errorListingServicePlansMessage w;
                  w2 = act (ActEvent EventTypeWarning errorListingServicePlansReason
                              (Sprintf ''%v %v'' [errorListingServicePlansMessage])) w1
              in (Some err, w2))
         | Inr plans \<Rightarrow>
             (case deleteServicePlansLoop c broker svcClass plans w of
                (Some err, w1) \<Rightarrow> (Some err, w1)
              | (None, w1) \<Rightarrow>
                  (case apiWrite c (ActDeleteServiceClass (Name (ObjectMeta svcClass))) w1 of
                     (Some err, w2) \<Rightarrow>
                       (if \<not> IsNotFound err then
                          (let s = Sprintf ''Error deleting ServiceClass %q (ClusterServiceBroker %q): %s''
                                     [ClassExternalName (Spec svcClass), Name (ObjectMeta broker)];
                               w3 = act (ActEvent EventTypeWarning errorDeletingServiceClassReason
                                           (Sprintf ''%v %v'' [errorDeletingServiceClassMessage, s])) w2
                           in case updateClusterServiceBrokerCondition c broker
                                     ServiceBrokerConditionReady ConditionUnknown
                                     errorDeletingServiceClassMessage
                                     (errorDeletingServiceClassReason @ s) w3 of
                                (Some uerr, w4) \<Rightarrow> (Some uerr, w4)
                              | (None, w4) \<Rightarrow> (Some err, w4))
                        else deleteServiceClassesLoop c broker rest w2)
                   | (None, w2) \<Rightarrow> deleteServiceClassesLoop c broker rest w2)))
      else deleteServiceClassesLoop c broker rest w)"

definition reconcileClusterServiceBrokerDelete ::
  "controller \<Rightarrow> ClusterServiceBroker \<Rightarrow> world \<Rightarrow> error option \<times> world" where
  "reconcileClusterServiceBrokerDelete c broker w =
     (if FinalizerServiceCatalog \<in> set (Finalizers (ObjectMeta broker)) then
        (case serviceClassListerList c of
           Inl err \<Rightarrow>
             (let w1 = act (ActEvent EventTypeWarning errorListingServiceClassesReason
                              (Sprintf ''%v %v'' [errorListingServiceClassesMessage])) w
              in case updateClusterServiceBrokerCondition c broker ServiceBrokerConditionReady
                        ConditionUnknown errorListingServiceClassesReason
                        errorListingServiceClassesMessage w1 of
                   (Some uerr, w2) \<Rightarrow> (Some uerr, w2)
                 | (None, w2) \<Rightarrow> (Some err, w2))
         | Inr svcClasses \<Rightarrow>
             (case deleteServiceClassesLoop c broker svcClasses w of
                (Some err, w1) \<Rightarrow> (Some err, w1)
              | (None, w1) \<Rightarrow>
                  (case updateClusterServiceBrokerCondition c broker ServiceBrokerConditionReady
                          ConditionFalse successClusterServiceBrokerDeletedReason
                          ''The broker was deleted successfully'' w1 of
                     (Some uerr, w2) \<Rightarrow> (Some uerr, w2)
                   | (None, w2) \<Rightarrow>
                       (let (ferr, w3) = updateClusterServiceBrokerFinalizers c broker
                               (finalizersWithout FinalizerServiceCatalog
                                  (Finalizers (ObjectMeta broker))) w2
                        in (None, act (ActEvent EventTypeNormal
                                         successClusterServiceBrokerDeletedReason
                                         (Sprintf successClusterServiceBrokerDeletedMessage
                                            [Name (ObjectMeta broker)])) w3)))))
      else (None, w))"

text \<open>
  The failure of the credentials lookup or of the client factory in
  \<open>reconcileClusterServiceBroker\<close>: the two branches of the source differ in the text.
\<close>

definition brokerClientFailed ::
  "controller \<Rightarrow> ClusterServiceBroker \<Rightarrow> string \<Rightarrow> error \<Rightarrow> world \<Rightarrow> error option \<times> world" where
  "brokerClientFailed c broker s err w =
     (let w1 = act (ActEvent EventTypeWarning errorAuthCredentialsReason s) w
      in case updateClusterServiceBrokerCondition c broker ServiceBrokerConditionReady
                ConditionFalse errorFetchingCatalogReason (errorFetchingCatalogMessage @ s) w1 of
           (Some uerr, w2) \<Rightarrow> (Some uerr, w2)
         | (None, w2) \<Rightarrow> (Some err, w2))"

definition reconcileClusterServiceBroker ::
  "controller \<Rightarrow> ClusterServiceBroker \<Rightarrow> world \<Rightarrow> error option \<times> world" where
  "reconcileClusterServiceBroker c broker w =
     (let (t0, w0) = Now c w
      in if \<not> shouldReconcileClusterServiceBroker broker t0 then (None, w0)
         else if DeletionTimestamp (ObjectMeta broker) = None then
           (case getAuthCredentialsFromBroker c broker of
              Inl err \<Rightarrow>
                brokerClientFailed c broker
                  (Sprintf ''Error getting broker auth credentials for broker %q: %s''
                     [Name (ObjectMeta broker)]) err w0
            | Inr authConfig \<Rightarrow>
                (case brokerClientCreateFunc c (NewClientConfigurationForBroker broker authConfig) of
                   Inl err \<Rightarrow>
                     brokerClientFailed c broker
                       (Sprintf ''Error creating client for broker %q: %s''
                          [Name (ObjectMeta broker)]) err w0
                 | Inr brokerClient \<Rightarrow>
                     (let (now, w1) = Now c w0;
                          w2 = act ActGetCatalog w1
                      in case GetCatalog brokerClient of
                           Inl err \<Rightarrow> catalogFetchFailed c broker now err w2
                         | Inr brokerCatalog \<Rightarrow> catalogFetched c broker brokerCatalog w2)))
         else reconcileClusterServiceBrokerDelete c broker w0)"

section \<open>Test fixtures\<close>

text \<open>
  Concrete objects and collaborators in the manner of the controller's unit tests: a
  class, a plan, a broker, an instance that refers to them, and a controller whose
  collaborators answer successfully.
\<close>

definition testServiceClass :: ServiceClass where
  "testServiceClass =
     \<lparr>ObjectMeta = \<lparr>Namespace = [], Name = ''test-serviceclass'', Generation = 0,
                     DeletionTimestamp = None, Finalizers = []\<rparr>,
      Spec = \<lparr>ClusterServiceBrokerName = ''test-broker'', ClassBindable = True,
               ClassPlanUpdatable = False, ClassExternalID = ''SCGUID'',
               ClassExternalName = ''test-serviceclass'', ClassTags = [],
               ClassDescription = ''a test service'', ClassRequires = [],
               ClassExternalMetadata = None\<rparr>,
      Status = ()\<rparr>"

definition testServicePlan :: ServicePlan where
  "testServicePlan =
     \<lparr>ObjectMeta = \<lparr>Namespace = [], Name = ''test-plan'', Generation = 0,
                     DeletionTimestamp = None, Finalizers = []\<rparr>,
      Spec = \<lparr>PlanClusterServiceBrokerName = ''test-broker'', PlanExternalName = ''test-plan'',
               PlanExternalID = ''PGUID'', PlanFree = True, PlanDescription = ''a test plan'',
               PlanBindable = None, ServiceClassRef = ''test-serviceclass'',
               PlanExternalMetadata = None, ServiceInstanceCreateParameterSchema = None,
               ServiceInstanceUpdateParameterSchema = None,
               ServiceInstanceCredentialCreateParameterSchema = None\<rparr>,
      Status = ()\<rparr>"

definition testBroker :: ClusterServiceBroker where
  "testBroker =
     \<lparr>ObjectMeta = \<lparr>Namespace = [], Name = ''test-broker'', Generation = 1,
                     DeletionTimestamp = None, Finalizers = [FinalizerServiceCatalog]\<rparr>,
      Spec = \<lparr>URL = ''https://example.com'', InsecureSkipTLSVerify = False, CABundle = [],
               RelistBehavior = ServiceBrokerRelistBehaviorDuration,
               RelistDuration = Some 900\<rparr>,
      Status = \<lparr>BrokerConditions = [], ReconciledGeneration = 0, OperationStartTime = None\<rparr>\<rparr>"

definition testInstance :: ServiceCatalogInstance where
  "testInstance =
     \<lparr>ObjectMeta = \<lparr>Namespace = ''test-ns'', Name = ''test-instance'', Generation = 1,
                     DeletionTimestamp = None, Finalizers = []\<rparr>,
      Spec = \<lparr>ServiceClassName = ''test-serviceclass'', PlanName = ''test-plan'',
               Parameters = None, ExternalID = ''IGUID''\<rparr>,
      Status = \<lparr>Conditions = [], AsyncOpInProgress = False, LastOperation = None,
                 DashboardURL = None, Checksum = None\<rparr>\<rparr>"

definition testBrokerClient :: BrokerClient where
  "testBrokerClient =
     \<lparr>GetCatalog = Inl (Error ''unexpected action''),
      ProvisionInstance = (\<lambda>request. Inl (Error ''unexpected action'')),
      DeprovisionInstance = (\<lambda>request. Inl (Error ''unexpected action'')),
      PollLastOperation = (\<lambda>request. Inl (Error ''unexpected action''))\<rparr>"

definition testChecksum :: "InstanceSpec \<Rightarrow> string" where
  "testChecksum spec =
     ServiceClassName spec @ '':'' @ PlanName spec @ '':'' @ ExternalID spec @ '':'' @
       (case Parameters spec of None \<Rightarrow> [] | Some raw \<Rightarrow> raw)"

definition testController :: "BrokerClient \<Rightarrow> controller" where
  "testController brokerClient =
     \<lparr>clock = (\<lambda>n. 1000 + int n),
      apiWriteErr = (\<lambda>n. None),
      instanceGetFailure = (\<lambda>n. None),
      brokerGetFailure = (\<lambda>n. None),
      InstanceSpecChecksum = testChecksum,
      serviceClassLister =
        (\<lambda>name. if name = ''test-serviceclass'' then Inr testServiceClass else Inl (NotFound name)),
      servicePlanLister =
        (\<lambda>name. if name = ''test-plan'' then Inr testServicePlan else Inl (NotFound name)),
      brokerLister =
        (\<lambda>name. if name = ''test-broker'' then Inr testBroker else Inl (NotFound name)),
      serviceClassListerList = Inr [testServiceClass],
      servicePlanListerList = Inr [testServicePlan],
      getAuthCredentialsFromBroker = (\<lambda>broker. Inr None),
      brokerClientCreateFunc = (\<lambda>config. Inr brokerClient),
      unmarshalParameters = (\<lambda>raw. Inr []),
      getNamespace = (\<lambda>ns. Inr ''test-ns-uid''),
      Marshal = (\<lambda>v. case v of Value s \<Rightarrow> Inr s),
      reconciliationRetryDuration = 604800\<rparr>"

definition testWorld :: "ServiceCatalogInstance \<Rightarrow> ClusterServiceBroker \<Rightarrow> world" where
  "testWorld instance broker =
     \<lparr>instanceServer = instance, brokerServer = broker, actions = [], writes = 0, ticks = 0,
      pollingQueue = emptyQueue\<rparr>"

text \<open>An instance that was provisioned and is now being deleted.\<close>

definition testInstanceDeleting :: ServiceCatalogInstance where
  "testInstanceDeleting =
     testInstance\<lparr>ObjectMeta := (ObjectMeta testInstance)
                     \<lparr>DeletionTimestamp := Some 0, Finalizers := [FinalizerServiceCatalog]\<rparr>,
                  Status := (Status testInstance)
                     \<lparr>Checksum := Some (testChecksum (Spec testInstance))\<rparr>\<rparr>"

text \<open>An instance whose provisioning the broker rejected.\<close>

definition testInstanceWithFailedStatus :: ServiceCatalogInstance where
  "testInstanceWithFailedStatus =
     testInstance\<lparr>Status := (Status testInstance)
        \<lparr>Conditions := [\<lparr>CondType = InstanceConditionFailed, CondStatus = ConditionTrue,
                          Reason = ''BrokerReturnedFailure'', Message = [],
                          LastTransitionTime = 0\<rparr>]\<rparr>\<rparr>"

text \<open>An instance with an asynchronous provision in flight.\<close>

definition testInstanceAsyncProvisioning :: ServiceCatalogInstance where
  "testInstanceAsyncProvisioning =
     testInstance\<lparr>Status := (Status testInstance)
        \<lparr>Conditions := [\<lparr>CondType = InstanceConditionReady, CondStatus = ConditionFalse,
                          Reason = asyncProvisioningReason, Message = asyncProvisioningMessage,
                          LastTransitionTime = 0\<rparr>],
         AsyncOpInProgress := True, LastOperation := Some ''test-operation''\<rparr>\<rparr>"

definition asyncDeprovisionClient :: BrokerClient where
  "asyncDeprovisionClient =
     testBrokerClient\<lparr>DeprovisionInstance :=
       (\<lambda>request. Inr \<lparr>DeprovisionAsync = True, DeprovisionOperationKey = Some ''test-operation''\<rparr>)\<rparr>"

text \<open>
  An instance being deleted whose asynchronous deprovision is in flight, and a broker
  that answers a deprovision call synchronously.
\<close>

definition testInstanceAsyncDeprovisioning :: ServiceCatalogInstance where
  "testInstanceAsyncDeprovisioning =
     testInstanceDeleting\<lparr>Status := (Status testInstanceDeleting)
        \<lparr>AsyncOpInProgress := True, LastOperation := Some ''test-operation''\<rparr>\<rparr>"

definition syncDeprovisionClient :: BrokerClient where
  "syncDeprovisionClient =
     testBrokerClient\<lparr>DeprovisionInstance :=
       (\<lambda>request. Inr \<lparr>DeprovisionAsync = False, DeprovisionOperationKey = None\<rparr>)\<rparr>"

definition httpErrorProvisionClient :: BrokerClient where
  "httpErrorProvisionClient =
     testBrokerClient\<lparr>ProvisionInstance :=
       (\<lambda>request. Inl (HTTPStatusCodeError 500 (Some ''InternalServerError'') (Some ''boom'')))\<rparr>"

definition inProgressPollClient :: BrokerClient where
  "inProgressPollClient =
     testBrokerClient\<lparr>PollLastOperation :=
       (\<lambda>request. Inr \<lparr>State = StateInProgress, Description = None\<rparr>)\<rparr>"

definition failingCatalogClient :: BrokerClient where
  "failingCatalogClient = testBrokerClient\<lparr>GetCatalog := Inl (Error ''ooops'')\<rparr>"

text \<open>A broker whose catalog fetch has been failing since the time 100.\<close>

definition testBrokerRetrying :: ClusterServiceBroker where
  "testBrokerRetrying =
     testBroker\<lparr>Status := (Status testBroker)
        \<lparr>BrokerConditions := [\<lparr>CondType = ServiceBrokerConditionReady, CondStatus = ConditionFalse,
                                Reason = errorFetchingCatalogReason,
                                Message = errorFetchingCatalogMessage,
                                LastTransitionTime = 100\<rparr>],
         OperationStartTime := Some 100\<rparr>\<rparr>"


text \<open>An instance that was provisioned synchronously and is ready.\<close>

definition testInstanceProvisioned :: ServiceCatalogInstance where
  "testInstanceProvisioned =
     testInstance\<lparr>Status := (Status testInstance)
        \<lparr>Conditions := [\<lparr>CondType = InstanceConditionReady, CondStatus = ConditionTrue,
                          Reason = successProvisionReason, Message = successProvisionMessage,
                          LastTransitionTime = 0\<rparr>],
         Checksum := Some (testChecksum (Spec testInstance))\<rparr>\<rparr>"

definition syncProvisionClient :: BrokerClient where
  "syncProvisionClient =
     testBrokerClient\<lparr>ProvisionInstance :=
       (\<lambda>request. Inr \<lparr>ProvisionAsync = False, ProvisionDashboardURL = Some ''https://d.example'',
                       ProvisionOperationKey = None\<rparr>)\<rparr>"

text \<open>A broker that became ready at the time 1000 and relists after 900.\<close>

definition testBrokerReady :: ClusterServiceBroker where
  "testBrokerReady =
     testBroker\<lparr>Status := (Status testBroker)
        \<lparr>BrokerConditions := [\<lparr>CondType = ServiceBrokerConditionReady, CondStatus = ConditionTrue,
                                Reason = successFetchedCatalogReason,
                                Message = successFetchedCatalogMessage,
                                LastTransitionTime = 1000\<rparr>],
         ReconciledGeneration := 1\<rparr>\<rparr>"

text \<open>A catalog with one service and one plan, and one whose second service has no plan.\<close>

definition testPlan :: Plan where
  "testPlan = \<lparr>PlanID = ''PGUID'', OsbPlanName = ''test-plan'', OsbPlanDescription = ''a test plan'',
                OsbPlanFree = Some True, OsbPlanBindable = None, OsbPlanMetadata = None,
                OsbAlphaParameterSchemas = None\<rparr>"

definition testService :: Service where
  "testService = \<lparr>ServiceID = ''SCGUID'', ServiceName = ''test-serviceclass'',
                   ServiceDescription = ''a test service'', ServiceTags = [], ServiceRequires = [],
                   ServiceBindable = True, ServicePlanUpdatable = None, Plans = [testPlan],
                   ServiceMetadata = None\<rparr>"

definition testCatalog :: CatalogResponse where
  "testCatalog = \<lparr>Services = [testService]\<rparr>"

definition testCatalogWithoutPlans :: CatalogResponse where
  "testCatalogWithoutPlans =
     \<lparr>Services = [testService, testService\<lparr>ServiceID := ''SCGUID2'', Plans := []\<rparr>]\<rparr>"

definition testMarshal :: "Value \<Rightarrow> error + string" where
  "testMarshal v = (case v of Value s \<Rightarrow> Inr s)"

text \<open>
  A broker that accepts a provision as an asynchronous operation and reports it in
  progress at every poll.
\<close>

definition asyncProvisionClient :: BrokerClient where
  "asyncProvisionClient =
     testBrokerClient\<lparr>
       ProvisionInstance :=
         (\<lambda>request. Inr \<lparr>ProvisionAsync = True, ProvisionDashboardURL = None,
                         ProvisionOperationKey = Some ''test-operation''\<rparr>),
       PollLastOperation :=
         (\<lambda>request. Inr \<lparr>State = StateInProgress, Description = None\<rparr>)\<rparr>"

text \<open>
  A controller whose broker's catalog cannot be fetched and whose retry duration is 600:
  for a broker failing since 100 the duration has passed at the clock readings from 1000.
\<close>

definition retryTimeoutController :: controller where
  "retryTimeoutController =
     (testController failingCatalogClient)\<lparr>reconciliationRetryDuration := 600\<rparr>"

text \<open>
  An instance that was never provisioned and is being deleted; a broker that reports the
  last operation failed; a controller whose API server refuses every write; a broker
  whose catalog is fetched.
\<close>

definition testInstanceNeverProvisionedDeleting :: ServiceCatalogInstance where
  "testInstanceNeverProvisionedDeleting =
     testInstance\<lparr>ObjectMeta := (ObjectMeta testInstance)
                     \<lparr>DeletionTimestamp := Some 0, Finalizers := [FinalizerServiceCatalog]\<rparr>\<rparr>"

definition failedPollClient :: BrokerClient where
  "failedPollClient =
     testBrokerClient\<lparr>PollLastOperation :=
       (\<lambda>request. Inr \<lparr>State = StateFailed, Description = None\<rparr>)\<rparr>"

definition refusedWrites :: "controller \<Rightarrow> controller" where
  "refusedWrites c = c\<lparr>apiWriteErr := (\<lambda>n. Some (Error ''conflict''))\<rparr>"

definition catalogClient :: BrokerClient where
  "catalogClient = testBrokerClient\<lparr>GetCatalog := Inr testCatalog\<rparr>"

section \<open>Reading conditions\<close>

text \<open>The condition of a type in a status: the first one of that type, as the loops find it.\<close>

definition conditionOf :: "'t \<Rightarrow> 't Condition list \<Rightarrow> 't Condition option" where
  "conditionOf conditionType conds = find (\<lambda>cond. CondType cond = conditionType) conds"

section \<open>Verified properties\<close>

lemmas fixture_defs =
  testServiceClass_def testServicePlan_def testBroker_def testInstance_def testBrokerClient_def
  testChecksum_def testController_def testWorld_def testInstanceDeleting_def
  testInstanceWithFailedStatus_def testInstanceAsyncProvisioning_def asyncDeprovisionClient_def
  httpErrorProvisionClient_def inProgressPollClient_def failingCatalogClient_def
  testBrokerRetrying_def emptyQueue_def testInstanceProvisioned_def syncProvisionClient_def
  testBrokerReady_def asyncProvisionClient_def testInstanceAsyncDeprovisioning_def
  syncDeprovisionClient_def testInstanceNeverProvisionedDeleting_def failedPollClient_def
  refusedWrites_def catalogClient_def

lemmas instance_defs =
  reconcileInstance_def reconcileInstanceDelete_def provisionInstance_def provisionResponded_def
  deprovisionResponded_def deprovisionFailed_def pollInstance_def pollInstanceInternal_def
  getServiceClassPlanAndBroker_def isInstanceFailed_def setInstanceCondition_def
  setInstanceConditionInternal_def updateInstanceStatus_def updateInstanceCondition_def
  updateInstanceFinalizers_def UpdateStatus_def statusUpdateStored_def Now_def act_def finalizersWithout_def
  FinalizerServiceCatalog_def NewClientConfigurationForBroker_def MetaNamespaceKey_def Add_def
  Let_def

subsection \<open>Broker relist gate\<close>

lemma shouldReconcileLoop_find:
  "shouldReconcileLoop conds broker now =
     (case find (\<lambda>c. CondType c = ServiceBrokerConditionReady) conds of
        None \<Rightarrow> True
      | Some ready \<Rightarrow>
          (if CondStatus ready = ConditionTrue then
             (if RelistBehavior (Spec broker) = ServiceBrokerRelistBehaviorManual then False
              else (case RelistDuration (Spec broker) of
                      None \<Rightarrow> False
                    | Some duration \<Rightarrow> LastTransitionTime ready + duration < now))
           else True))"
  by (induction conds) simp_all

text \<open>
  C8. \<open>shouldReconcileClusterServiceBroker broker now\<close> is true when the generation
  differs from the reconciled generation; otherwise true when the deletion timestamp is
  set or there are no conditions; otherwise it is decided by the first condition of type
  ready: with status true, false under manual relist behaviour and otherwise true exactly
  when \<open>now\<close> is after the condition's last transition time plus the relist duration
  (false when the duration is nil); with any other status, true; and true when there is
  no ready condition at all.
\<close>

theorem shouldReconcile_decision:
  "shouldReconcileClusterServiceBroker broker now =
     (if ReconciledGeneration (Status broker) \<noteq> Generation (ObjectMeta broker) then True
      else if DeletionTimestamp (ObjectMeta broker) \<noteq> None
              \<or> BrokerConditions (Status broker) = [] then True
      else
        (case conditionOf ServiceBrokerConditionReady (BrokerConditions (Status broker)) of
           None \<Rightarrow> True
         | Some ready \<Rightarrow>
             (if CondStatus ready = ConditionTrue then
                (if RelistBehavior (Spec broker) = ServiceBrokerRelistBehaviorManual then False
                 else (case RelistDuration (Spec broker) of
                         None \<Rightarrow> False
                       | Some duration \<Rightarrow> LastTransitionTime ready + duration < now))
              else True)))"
  unfolding shouldReconcileClusterServiceBroker_def conditionOf_def
  by (simp add: shouldReconcileLoop_find)

text \<open>
  A broker that became ready at 1000 with a relist duration of 900 is reconciled at 1901
  and not at 1900.
\<close>

theorem shouldReconcile_decision_witness:
  "shouldReconcileClusterServiceBroker testBrokerReady 1901 \<and>
   \<not> shouldReconcileClusterServiceBroker testBrokerReady 1900"
  using shouldReconcile_decision [of testBrokerReady 1901]
    shouldReconcile_decision [of testBrokerReady 1900]
  by (simp add: fixture_defs conditionOf_def)

subsection \<open>Instance reconciler: the checksum gate\<close>

text \<open>
  C5. An instance whose status checksum is the checksum of its spec, with no asynchronous
  operation in progress and no deletion timestamp, is not processed: \<open>reconcileInstance\<close>
  returns nil and leaves the world as it was, so no broker call and no status update (no
  action at all) was made.
\<close>

theorem reconcileInstance_checksum_noop:
  assumes "Checksum (Status inst) = Some (InstanceSpecChecksum c (Spec inst))"
    and "\<not> AsyncOpInProgress (Status inst)"
    and "DeletionTimestamp (ObjectMeta inst) = None"
  shows "reconcileInstance c inst w = (None, w)"
  using assms by (simp add: reconcileInstance_def)

theorem reconcileInstance_checksum_noop_witness:
  "Checksum (Status testInstanceProvisioned)
     = Some (InstanceSpecChecksum (testController testBrokerClient) (Spec testInstanceProvisioned)) \<and>
   \<not> AsyncOpInProgress (Status testInstanceProvisioned) \<and>
   DeletionTimestamp (ObjectMeta testInstanceProvisioned) = None \<and>
   reconcileInstance (testController testBrokerClient) testInstanceProvisioned
       (testWorld testInstanceProvisioned testBroker)
     = (None, testWorld testInstanceProvisioned testBroker) \<and>
   actions (testWorld testInstanceProvisioned testBroker) = []"
proof -
  have h1: "Checksum (Status testInstanceProvisioned)
     = Some (InstanceSpecChecksum (testController testBrokerClient) (Spec testInstanceProvisioned))"
    by (simp add: fixture_defs)
  have h2: "\<not> AsyncOpInProgress (Status testInstanceProvisioned)"
    by (simp add: fixture_defs)
  have h3: "DeletionTimestamp (ObjectMeta testInstanceProvisioned) = None"
    by (simp add: fixture_defs)
  have h4: "actions (testWorld testInstanceProvisioned testBroker) = []"
    by (simp add: testWorld_def)
  from reconcileInstance_checksum_noop [OF h1 h2 h3] h1 h2 h3 h4 show ?thesis
    by blast
qed

subsection \<open>Instance reconciler: a failed provision call\<close>

lemma find_append:
  "find P (xs @ ys) = (case find P xs of None \<Rightarrow> find P ys | Some x \<Rightarrow> Some x)"
  by (induction xs) auto

lemma setInstanceConditionLoop_find:
  "setInstanceConditionLoop conds ty st r m t = Some conds' \<Longrightarrow>
     (\<exists>ltt. find (\<lambda>c. CondType c = ty) conds' =
        Some \<lparr>CondType = ty, CondStatus = st, Reason = r, Message = m, LastTransitionTime = ltt\<rparr>)"
  by (induction conds arbitrary: conds') (auto split: if_splits)

lemma setInstanceConditionLoop_find_other:
  "setInstanceConditionLoop conds ty st r m t = Some conds' \<Longrightarrow> ty' \<noteq> ty \<Longrightarrow>
     find (\<lambda>c. CondType c = ty') conds' = find (\<lambda>c. CondType c = ty') conds"
  by (induction conds arbitrary: conds') (auto split: if_splits)

lemma setInstanceConditionLoop_None:
  "(setInstanceConditionLoop conds ty st r m t = None) = (find (\<lambda>c. CondType c = ty) conds = None)"
  by (induction conds) auto

lemma conditionOf_set:
  "\<exists>ltt. conditionOf ty (Conditions (Status (setInstanceConditionInternal i ty st r m t))) =
     Some \<lparr>CondType = ty, CondStatus = st, Reason = r, Message = m, LastTransitionTime = ltt\<rparr>"
proof (cases "setInstanceConditionLoop (Conditions (Status i)) ty st r m t")
  case None
  then have "find (\<lambda>c. CondType c = ty) (Conditions (Status i)) = None"
    by (simp add: setInstanceConditionLoop_None)
  with None show ?thesis
    by (cases "Conditions (Status i)")
       (auto simp: conditionOf_def setInstanceConditionInternal_def Let_def find_append
             split: option.splits if_splits)
next
  case (Some conds')
  from setInstanceConditionLoop_find[OF Some] Some show ?thesis
    by (cases "Conditions (Status i)")
       (auto simp: conditionOf_def setInstanceConditionInternal_def Let_def)
qed

lemma conditionOf_set_status [simp]:
  "map_option CondStatus
     (conditionOf ty (Conditions (Status (setInstanceConditionInternal i ty st r m t)))) = Some st"
  "map_option Reason
     (conditionOf ty (Conditions (Status (setInstanceConditionInternal i ty st r m t)))) = Some r"
  using conditionOf_set[of ty i st r m t] by auto

lemma conditionOf_set_other [simp]:
  assumes "ty' \<noteq> ty"
  shows "conditionOf ty' (Conditions (Status (setInstanceConditionInternal i ty st r m t))) =
           conditionOf ty' (Conditions (Status i))"
proof (cases "setInstanceConditionLoop (Conditions (Status i)) ty st r m t")
  case None
  with assms show ?thesis
    by (cases "Conditions (Status i)")
       (auto simp: conditionOf_def setInstanceConditionInternal_def Let_def find_append
             split: option.splits)
next
  case (Some conds')
  from setInstanceConditionLoop_find_other[OF Some assms] Some show ?thesis
    by (cases "Conditions (Status i)")
       (auto simp: conditionOf_def setInstanceConditionInternal_def Let_def)
qed

text \<open>
  What the server stores for a status update is the update itself unless its ready
  condition is true.
\<close>

lemma readyConditionTrue_conditionOf:
  "readyConditionTrue conds =
     (map_option CondStatus (conditionOf InstanceConditionReady conds) = Some ConditionTrue)"
  by (induction conds) (auto simp: conditionOf_def)

lemma statusUpdateStored_not_ready [simp]:
  "st \<noteq> ConditionTrue \<Longrightarrow>
     statusUpdateStored c (setInstanceConditionInternal i InstanceConditionReady st r m t)
       = setInstanceConditionInternal i InstanceConditionReady st r m t"
  by (simp add: statusUpdateStored_def readyConditionTrue_conditionOf)

text \<open>
  C6, as the code has it. The instance is one that reaches the provision call: not
  failed, not being deleted, no asynchronous operation in progress, the checksum gate not
  passed, its class, plan and broker resolved, its parameters decoded and its namespace
  found. When the call fails, one status update is submitted, with ready false, and it
  becomes the server's copy when the server accepts it. If the failure is an HTTP error
  of the broker the update also carries failed true, and the reconciliation returns what
  the update returned: nil when it was accepted, its error otherwise. If the failure is
  any other error, the reason of ready is \<open>ErrorCallingProvision\<close> and the error of the
  call is returned.
\<close>

theorem provision_failure_handling:
  assumes "\<not> isInstanceFailed inst"
    and "DeletionTimestamp (ObjectMeta inst) = None"
    and "\<not> AsyncOpInProgress (Status inst)"
    and "Checksum (Status inst) \<noteq> Some (InstanceSpecChecksum c (Spec inst))"
    and "getServiceClassPlanAndBroker c inst w =
           (Inr (serviceClass, servicePlan, brokerName, brokerClient), w)"
    and "(case Parameters (Spec inst) of None \<Rightarrow> Inr [] | Some raw \<Rightarrow> unmarshalParameters c raw)
           = Inr parameters"
    and "getNamespace c (Namespace (ObjectMeta inst)) = Inr nsUID"
    and "ProvisionInstance brokerClient
           (ProvisionRequest True (ExternalID (Spec inst)) (ClassExternalID (Spec serviceClass))
              (PlanExternalID (Spec servicePlan)) parameters nsUID nsUID
              [(''platform'', ContextProfilePlatformKubernetes),
               (''namespace'', Namespace (ObjectMeta inst))]) = Inl err"
  shows "\<exists>toUpdate.
           ActUpdateStatus toUpdate \<in> set (actions (snd (reconcileInstance c inst w))) \<and>
           (apiWriteErr c (writes w) = None \<longrightarrow>
              instanceServer (snd (reconcileInstance c inst w)) = toUpdate) \<and>
           map_option CondStatus
             (conditionOf InstanceConditionReady (Conditions (Status toUpdate))) = Some ConditionFalse \<and>
           (if IsHTTPError err then
              map_option CondStatus
                (conditionOf InstanceConditionFailed (Conditions (Status toUpdate)))
                  = Some ConditionTrue \<and>
              fst (reconcileInstance c inst w) = apiWriteErr c (writes w)
            else
              map_option Reason
                (conditionOf InstanceConditionReady (Conditions (Status toUpdate)))
                  = Some errorErrorCallingProvisionReason \<and>
              fst (reconcileInstance c inst w) = Some err)"
proof -
  let ?request = "ProvisionRequest True (ExternalID (Spec inst)) (ClassExternalID (Spec serviceClass))
              (PlanExternalID (Spec servicePlan)) parameters nsUID nsUID
              [(''platform'', ContextProfilePlatformKubernetes),
               (''namespace'', Namespace (ObjectMeta inst))]"
  let ?w1 = "act (ActBroker ?request) (act (ActGetNamespace (Namespace (ObjectMeta inst))) w)"
  let ?s = "Sprintf ''Error provisioning Instance %s/%s of ServiceClass %q at Broker %q: %s''
              [Namespace (ObjectMeta inst), Name (ObjectMeta inst),
               Name (ObjectMeta serviceClass), brokerName]"
  let ?r = "reconcileInstance c inst w"
  have r: "?r = provisionResponded c inst inst serviceClass brokerName (Inl err) ?w1"
    using assms by (simp add: reconcileInstance_def provisionInstance_def Let_def)
  show ?thesis
  proof (cases "IsHTTPError err")
    case True
    let ?tu = "setInstanceConditionInternal
                 (setInstanceConditionInternal inst InstanceConditionFailed ConditionTrue
                    ''BrokerReturnedFailure'' ?s (clock c (ticks w)))
                 InstanceConditionReady ConditionFalse errorProvisionCallFailedReason
                 (''Broker returned a failure for provision call; operation will not be retried: '' @ ?s)
                 (clock c (Suc (ticks w)))"
    from True have "ActUpdateStatus ?tu \<in> set (actions (snd ?r))"
      and "apiWriteErr c (writes w) = None \<longrightarrow> instanceServer (snd ?r) = ?tu"
      and "fst ?r = apiWriteErr c (writes w)"
      unfolding r
      by (simp_all add: provisionResponded_def setInstanceCondition_def Now_def Let_def
            updateInstanceStatus_def UpdateStatus_def act_def split: option.splits)
    with True show ?thesis
      by (intro exI[of _ ?tu]) simp
  next
    case False
    let ?tu = "setInstanceConditionInternal inst
                 InstanceConditionReady ConditionFalse errorErrorCallingProvisionReason
                 (''Provision call failed and will be retried: '' @ ?s) (clock c (ticks w))"
    from False have "ActUpdateStatus ?tu \<in> set (actions (snd ?r))"
      and "apiWriteErr c (writes w) = None \<longrightarrow> instanceServer (snd ?r) = ?tu"
      and "fst ?r = Some err"
      unfolding r
      by (simp_all add: provisionResponded_def setInstanceCondition_def Now_def Let_def
            updateInstanceStatus_def UpdateStatus_def act_def split: option.splits)
    with False show ?thesis
      by (intro exI[of _ ?tu]) simp
  qed
qed

text \<open>
  The broker rejects the provision of a new instance with the status 500 and the server
  accepts the status update: the reconciliation returns nil and the server's copy has
  failed true and ready false.
\<close>

theorem provision_failure_handling_witness:
  "fst (reconcileInstance (testController httpErrorProvisionClient) testInstance
          (testWorld testInstance testBroker)) = None \<and>
   map_option CondStatus (conditionOf InstanceConditionFailed (Conditions (Status
      (instanceServer (snd (reconcileInstance (testController httpErrorProvisionClient)
          testInstance (testWorld testInstance testBroker))))))) = Some ConditionTrue \<and>
   map_option CondStatus (conditionOf InstanceConditionReady (Conditions (Status
      (instanceServer (snd (reconcileInstance (testController httpErrorProvisionClient)
          testInstance (testWorld testInstance testBroker))))))) = Some ConditionFalse"
proof -
  let ?c = "testController httpErrorProvisionClient"
  let ?w = "testWorld testInstance testBroker"
  have h1: "\<not> isInstanceFailed testInstance"
    by (simp add: isInstanceFailed_def testInstance_def)
  have h2: "DeletionTimestamp (ObjectMeta testInstance) = None"
    by (simp add: testInstance_def)
  have h3: "\<not> AsyncOpInProgress (Status testInstance)"
    by (simp add: testInstance_def)
  have h4: "Checksum (Status testInstance) \<noteq> Some (InstanceSpecChecksum ?c (Spec testInstance))"
    by (simp add: testInstance_def)
  have h5: "getServiceClassPlanAndBroker ?c testInstance ?w =
              (Inr (testServiceClass, testServicePlan, ''test-broker'', httpErrorProvisionClient), ?w)"
    by (simp add: getServiceClassPlanAndBroker_def testController_def testInstance_def
          testServiceClass_def testBroker_def)
  have h6: "(case Parameters (Spec testInstance) of None \<Rightarrow> Inr []
             | Some raw \<Rightarrow> unmarshalParameters ?c raw) = Inr []"
    by (simp add: testInstance_def)
  have h7: "getNamespace ?c (Namespace (ObjectMeta testInstance)) = Inr ''test-ns-uid''"
    by (simp add: testController_def)
  have h8: "ProvisionInstance httpErrorProvisionClient
           (ProvisionRequest True (ExternalID (Spec testInstance))
              (ClassExternalID (Spec testServiceClass))
              (PlanExternalID (Spec testServicePlan)) [] ''test-ns-uid'' ''test-ns-uid''
              [(''platform'', ContextProfilePlatformKubernetes),
               (''namespace'', Namespace (ObjectMeta testInstance))])
            = Inl (HTTPStatusCodeError 500 (Some ''InternalServerError'') (Some ''boom''))"
    by (simp add: httpErrorProvisionClient_def testBrokerClient_def)
  have h9: "apiWriteErr ?c (writes ?w) = None"
    by (simp add: testController_def)
  from provision_failure_handling [OF h1 h2 h3 h4 h5 h6 h7 h8] h9
  show ?thesis by auto
qed

text \<open>
  C6 as stated fails. The broker rejects the provision with the status 500 and the API
  server refuses the status update: the reconciliation returns the error of the update,
  not nil, and the queue retries.
\<close>

theorem provision_http_error_update_conflict:
  "fst (reconcileInstance
          ((testController httpErrorProvisionClient)\<lparr>apiWriteErr := (\<lambda>n. Some (Error ''conflict''))\<rparr>)
          testInstance (testWorld testInstance testBroker)) = Some (Error ''conflict'') \<and>
   ActBroker (ProvisionRequest True ''IGUID'' ''SCGUID'' ''PGUID'' [] ''test-ns-uid'' ''test-ns-uid''
                [(''platform'', ''kubernetes''), (''namespace'', ''test-ns'')])
     \<in> set (actions (snd (reconcileInstance
          ((testController httpErrorProvisionClient)\<lparr>apiWriteErr := (\<lambda>n. Some (Error ''conflict''))\<rparr>)
          testInstance (testWorld testInstance testBroker)))) \<and>
   IsHTTPError (HTTPStatusCodeError 500 (Some ''InternalServerError'') (Some ''boom'')) \<and>
   ProvisionInstance httpErrorProvisionClient
     (ProvisionRequest True ''IGUID'' ''SCGUID'' ''PGUID'' [] ''test-ns-uid'' ''test-ns-uid''
        [(''platform'', ''kubernetes''), (''namespace'', ''test-ns'')])
     = Inl (HTTPStatusCodeError 500 (Some ''InternalServerError'') (Some ''boom''))"
  by (simp add: instance_defs fixture_defs ContextProfilePlatformKubernetes_def)

subsection \<open>Instance reconciler: the checksum after a reconciliation that succeeded\<close>

text \<open>
  What the steps of a reconciliation leave as the server's copy when the server accepts
  every status update.
\<close>

lemma setInstanceConditionInternal_fields [simp]:
  "Spec (setInstanceConditionInternal i ty st r m t) = Spec i"
  "AsyncOpInProgress (Status (setInstanceConditionInternal i ty st r m t))
     = AsyncOpInProgress (Status i)"
  "Checksum (Status (setInstanceConditionInternal i ty st r m t)) = Checksum (Status i)"
  by (simp_all add: setInstanceConditionInternal_def Let_def split: option.splits)

lemma statusUpdateStored_fields [simp]:
  "Spec (statusUpdateStored c obj) = Spec obj"
  "AsyncOpInProgress (Status (statusUpdateStored c obj)) = AsyncOpInProgress (Status obj)"
  "Conditions (Status (statusUpdateStored c obj)) = Conditions (Status obj)"
  "Checksum (Status (statusUpdateStored c obj)) =
     (if map_option CondStatus (conditionOf InstanceConditionReady (Conditions (Status obj)))
           = Some ConditionTrue
      then Some (InstanceSpecChecksum c (Spec obj)) else Checksum (Status obj))"
  by (auto simp: statusUpdateStored_def readyConditionTrue_conditionOf)

lemma act_server [simp]: "instanceServer (act a w) = instanceServer w"
  by (simp add: act_def)

lemma updateInstanceCondition_accepted:
  assumes "apiWriteErr c (writes w) = None"
  shows "fst (updateInstanceCondition c obj ty st r m w) = None"
    and "instanceServer (snd (updateInstanceCondition c obj ty st r m w))
           = statusUpdateStored c (setInstanceConditionInternal obj ty st r m (clock c (ticks w)))"
  using assms
  by (simp_all add: updateInstanceCondition_def setInstanceCondition_def Now_def UpdateStatus_def
        act_def Let_def)

lemma pollInstance_stored:
  assumes acc: "\<forall>n. apiWriteErr c n = None"
    and nd: "DeletionTimestamp (ObjectMeta i) = None"
    and ok: "fst (pollInstance c sc sp bn bc i w) = None"
  shows "Checksum (Status (instanceServer (snd (pollInstance c sc sp bn bc i w))))
           = Some (InstanceSpecChecksum c (Spec (instanceServer (snd (pollInstance c sc sp bn bc i w)))))
         \<or> (map_option CondStatus (conditionOf InstanceConditionReady (Conditions (Status
               (instanceServer (snd (pollInstance c sc sp bn bc i w)))))) = Some ConditionFalse \<and>
            map_option Reason (conditionOf InstanceConditionReady (Conditions (Status
               (instanceServer (snd (pollInstance c sc sp bn bc i w))))))
              = Some errorProvisionCallFailedReason)"
proof -
  let ?request = "LastOperationRequest (ExternalID (Spec i))
                      (Some (ClassExternalID (Spec sc))) (Some (PlanExternalID (Spec sp)))
                      (case LastOperation (Status i) of
                         None \<Rightarrow> None
                       | Some key \<Rightarrow> (if key \<noteq> [] then Some key else None))"
  let ?w0 = "act (ActBroker ?request) w"
  have a0: "apiWriteErr c (writes ?w0) = None" using acc by simp
  show ?thesis
  proof (cases "PollLastOperation bc ?request")
    case (Inl err)
    with nd ok show ?thesis by (simp add: pollInstance_def Let_def)
  next
    case (Inr response)
    show ?thesis
    proof (cases "State response")
      case StateInProgress
      with Inr ok show ?thesis by (simp add: pollInstance_def Let_def)
    next
      case StateSucceeded
      with Inr nd have "instanceServer (snd (pollInstance c sc sp bn bc i w)) =
        statusUpdateStored c (setInstanceConditionInternal
           (i\<lparr>Status := (Status i)\<lparr>AsyncOpInProgress := False\<rparr>\<rparr>)
           InstanceConditionReady ConditionTrue successProvisionReason successProvisionMessage
           (clock c (ticks ?w0)))"
        by (simp add: pollInstance_def Let_def updateInstanceCondition_accepted[OF a0])
      then show ?thesis by simp
    next
      case StateFailed
      with Inr nd have "instanceServer (snd (pollInstance c sc sp bn bc i w)) =
        statusUpdateStored c (setInstanceConditionInternal
           (i\<lparr>Status := (Status i)\<lparr>AsyncOpInProgress := False\<rparr>\<rparr>)
           InstanceConditionReady ConditionFalse errorProvisionCallFailedReason
           (''Provision call failed: '' @
              Sprintf ''Error deprovisioning Instance %s/%s of ServiceClass %q at Broker %q: %q''
                             [Namespace (ObjectMeta i), Name (ObjectMeta i),
                              Name (ObjectMeta sc), bn,
                              (case Description response of None \<Rightarrow> [] | Some d \<Rightarrow> d)])
           (clock c (ticks ?w0)))"
        by (simp add: pollInstance_def Let_def case_prod_beta updateInstanceCondition_accepted[OF a0])
      then show ?thesis by simp
    next
      case (StateOther state)
      with Inr ok show ?thesis by (simp add: pollInstance_def Let_def)
    qed
  qed
qed


lemma updateInstanceStatus_accepted:
  assumes "apiWriteErr c (writes w) = None"
  shows "fst (updateInstanceStatus c obj w) = None"
    and "instanceServer (snd (updateInstanceStatus c obj w)) = statusUpdateStored c obj"
  using assms
  by (simp_all add: updateInstanceStatus_def UpdateStatus_def act_def Let_def)

lemma setInstanceCondition_steps [simp]:
  "fst (setInstanceCondition c i ty st r m w)
     = setInstanceConditionInternal i ty st r m (clock c (ticks w))"
  "writes (snd (setInstanceCondition c i ty st r m w)) = writes w"
  "instanceServer (snd (setInstanceCondition c i ty st r m w)) = instanceServer w"
  by (simp_all add: setInstanceCondition_def Now_def Let_def)

lemma provisionResponded_stored:
  assumes acc: "\<forall>n. apiWriteErr c n = None"
    and ok: "fst (provisionResponded c i tu sc bn res w) = None"
  shows "Checksum (Status (instanceServer (snd (provisionResponded c i tu sc bn res w))))
           = Some (InstanceSpecChecksum c (Spec (instanceServer (snd (provisionResponded c i tu sc bn res w)))))
         \<or> AsyncOpInProgress (Status (instanceServer (snd (provisionResponded c i tu sc bn res w))))
         \<or> (map_option CondStatus (conditionOf InstanceConditionReady (Conditions (Status
               (instanceServer (snd (provisionResponded c i tu sc bn res w)))))) = Some ConditionFalse \<and>
            map_option Reason (conditionOf InstanceConditionReady (Conditions (Status
               (instanceServer (snd (provisionResponded c i tu sc bn res w))))))
              = Some errorProvisionCallFailedReason)"
proof (cases res)
  case (Inl err)
  show ?thesis
  proof (cases "IsHTTPError err")
    case True
    with Inl acc show ?thesis
      by (simp add: provisionResponded_def Let_def case_prod_beta updateInstanceStatus_def
            UpdateStatus_def act_def)
  next
    case False
    with Inl ok show ?thesis
      by (simp add: provisionResponded_def Let_def case_prod_beta)
  qed
next
  case (Inr response)
  show ?thesis
  proof (cases "ProvisionAsync response")
    case True
    with Inr acc show ?thesis
      by (simp add: provisionResponded_def Let_def case_prod_beta updateInstanceStatus_def
            UpdateStatus_def act_def split: option.splits)
  next
    case False
    with Inr acc show ?thesis
      by (simp add: provisionResponded_def Let_def case_prod_beta updateInstanceStatus_def
            UpdateStatus_def act_def split: option.splits)
  qed
qed

lemma provisionInstance_stored:
  assumes acc: "\<forall>n. apiWriteErr c n = None"
    and ok: "fst (provisionInstance c i sc sp bn bc w) = None"
  shows "Checksum (Status (instanceServer (snd (provisionInstance c i sc sp bn bc w))))
           = Some (InstanceSpecChecksum c (Spec (instanceServer (snd (provisionInstance c i sc sp bn bc w)))))
         \<or> AsyncOpInProgress (Status (instanceServer (snd (provisionInstance c i sc sp bn bc w))))
         \<or> (map_option CondStatus (conditionOf InstanceConditionReady (Conditions (Status
               (instanceServer (snd (provisionInstance c i sc sp bn bc w)))))) = Some ConditionFalse \<and>
            map_option Reason (conditionOf InstanceConditionReady (Conditions (Status
               (instanceServer (snd (provisionInstance c i sc sp bn bc w))))))
              = Some errorProvisionCallFailedReason)"
proof (cases "case Parameters (Spec i) of None \<Rightarrow> Inr [] | Some raw \<Rightarrow> unmarshalParameters c raw")
  case (Inl err)
  with ok show ?thesis
    by (simp add: provisionInstance_def Let_def case_prod_beta)
next
  case (Inr parameters)
  note p = Inr
  show ?thesis
  proof (cases "getNamespace c (Namespace (ObjectMeta i))")
    case (Inl err)
    with p ok show ?thesis
      by (simp add: provisionInstance_def Let_def case_prod_beta)
  next
    case (Inr nsUID)
    let ?request = "ProvisionRequest True (ExternalID (Spec i)) (ClassExternalID (Spec sc))
                      (PlanExternalID (Spec sp)) parameters nsUID nsUID
                      [(''platform'', ContextProfilePlatformKubernetes),
                       (''namespace'', Namespace (ObjectMeta i))]"
    let ?w1 = "act (ActBroker ?request) (act (ActGetNamespace (Namespace (ObjectMeta i))) w)"
    from p Inr have r: "provisionInstance c i sc sp bn bc w =
        provisionResponded c i i sc bn (ProvisionInstance bc ?request) ?w1"
      by (simp add: provisionInstance_def Let_def)
    from ok have "fst (provisionResponded c i i sc bn (ProvisionInstance bc ?request) ?w1) = None"
      by (simp add: r)
    from provisionResponded_stored[OF acc this] show ?thesis
      by (simp only: r)
  qed
qed

lemma getServiceClassPlanAndBroker_resolved:
  "getServiceClassPlanAndBroker c i w = (Inr x, w1) \<Longrightarrow> w1 = w"
  by (auto simp: getServiceClassPlanAndBroker_def Let_def case_prod_beta split: sum.splits)




subsection \<open>Instance reconciler: an asynchronous deprovision\<close>

text \<open>
  C1. The claim fails on two runs of the deletion branch. In the first, an instance that
  was provisioned is being deleted and the broker accepts the deprovision as an
  asynchronous operation: \<open>reconcileInstanceDelete\<close> marks the operation in progress
  and then falls through to the removal of the finalizer. In the second, the instance
  already has an asynchronous operation in progress: \<open>reconcileInstance\<close> hands it
  to \<open>reconcileInstanceDelete\<close>, not to the poll, a second deprovision call is made
  and, answered synchronously, ends in the removal of the finalizer. Each reconciliation
  returns nil, and the server's copy has the asynchronous operation in progress and no
  finalizer.
\<close>

theorem async_deprovision_clears_finalizer:
  "fst (reconcileInstance (testController asyncDeprovisionClient) testInstanceDeleting
          (testWorld testInstanceDeleting testBroker)) = None \<and>
   AsyncOpInProgress (Status (instanceServer (snd
      (reconcileInstance (testController asyncDeprovisionClient) testInstanceDeleting
          (testWorld testInstanceDeleting testBroker))))) \<and>
   FinalizerServiceCatalog \<notin> set (Finalizers (ObjectMeta (instanceServer (snd
      (reconcileInstance (testController asyncDeprovisionClient) testInstanceDeleting
          (testWorld testInstanceDeleting testBroker)))))) \<and>
   AsyncOpInProgress (Status testInstanceAsyncDeprovisioning) \<and>
   FinalizerServiceCatalog \<in> set (Finalizers (ObjectMeta testInstanceAsyncDeprovisioning)) \<and>
   fst (reconcileInstance (testController syncDeprovisionClient) testInstanceAsyncDeprovisioning
          (testWorld testInstanceAsyncDeprovisioning testBroker)) = None \<and>
   ActBroker (DeprovisionRequest ''IGUID'' ''SCGUID'' ''PGUID'' True) \<in> set (actions (snd
      (reconcileInstance (testController syncDeprovisionClient) testInstanceAsyncDeprovisioning
          (testWorld testInstanceAsyncDeprovisioning testBroker)))) \<and>
   AsyncOpInProgress (Status (instanceServer (snd
      (reconcileInstance (testController syncDeprovisionClient) testInstanceAsyncDeprovisioning
          (testWorld testInstanceAsyncDeprovisioning testBroker))))) \<and>
   FinalizerServiceCatalog \<notin> set (Finalizers (ObjectMeta (instanceServer (snd
      (reconcileInstance (testController syncDeprovisionClient) testInstanceAsyncDeprovisioning
          (testWorld testInstanceAsyncDeprovisioning testBroker))))))"
  by (simp add: instance_defs fixture_defs)

text \<open>
  C3. In the same run the operation key is recorded and the operation is marked in
  progress, but the key of the instance is not added to the polling queue (no action adds
  it and the queue does not hold it), and the ready condition that remains has the reason
  of a finished deprovision, not of an asynchronous one.
\<close>

theorem async_deprovision_not_enqueued:
  "LastOperation (Status (instanceServer (snd
      (reconcileInstance (testController asyncDeprovisionClient) testInstanceDeleting
          (testWorld testInstanceDeleting testBroker))))) = Some ''test-operation'' \<and>
   AsyncOpInProgress (Status (instanceServer (snd
      (reconcileInstance (testController asyncDeprovisionClient) testInstanceDeleting
          (testWorld testInstanceDeleting testBroker))))) \<and>
   ActPollingQueueAdd (MetaNamespaceKey (ObjectMeta testInstanceDeleting))
     \<notin> set (actions (snd
      (reconcileInstance (testController asyncDeprovisionClient) testInstanceDeleting
          (testWorld testInstanceDeleting testBroker)))) \<and>
   \<not> holds (pollingQueue (snd
      (reconcileInstance (testController asyncDeprovisionClient) testInstanceDeleting
          (testWorld testInstanceDeleting testBroker))))
        (MetaNamespaceKey (ObjectMeta testInstanceDeleting)) \<and>
   map_option Reason (conditionOf InstanceConditionReady (Conditions (Status (instanceServer (snd
      (reconcileInstance (testController asyncDeprovisionClient) testInstanceDeleting
          (testWorld testInstanceDeleting testBroker))))))) = Some successDeprovisionReason \<and>
   successDeprovisionReason \<noteq> asyncDeprovisioningReason"
  by (simp add: instance_defs fixture_defs holds_def conditionOf_def
        successDeprovisionReason_def asyncDeprovisioningReason_def)


subsection \<open>Catalog conversion\<close>

lemma convertServicePlan_ref:
  "convertServicePlan marshal plan serviceClassID = Inr servicePlan \<Longrightarrow>
     ServiceClassRef (Spec servicePlan) = serviceClassID"
  by (auto simp: convertServicePlan_def Let_def split: sum.splits option.splits)

lemma convertServicePlansLoop_ref:
  "convertServicePlansLoop marshal plans serviceClassID = Inr servicePlans \<Longrightarrow>
     length servicePlans = length plans \<and>
     (\<forall>p \<in> set servicePlans. ServiceClassRef (Spec p) = serviceClassID)"
  by (induction plans arbitrary: servicePlans)
     (auto split: sum.splits dest: convertServicePlan_ref)

lemma convertServicePlans_ref:
  assumes "convertServicePlans marshal plans serviceClassID = Inr servicePlans"
  shows "plans \<noteq> [] \<and> servicePlans \<noteq> [] \<and>
         (\<forall>p \<in> set servicePlans. ServiceClassRef (Spec p) = serviceClassID)"
proof -
  from assms have ne: "plans \<noteq> []"
    by (auto simp: convertServicePlans_def split: if_splits)
  with assms have "convertServicePlansLoop marshal plans serviceClassID = Inr servicePlans"
    by (simp add: convertServicePlans_def)
  from convertServicePlansLoop_ref[OF this] ne show ?thesis by auto
qed

lemma convertService_plans:
  assumes "convertService marshal svc = Inr (serviceClass, plans)"
  shows "Plans svc \<noteq> [] \<and> plans \<noteq> [] \<and> Name (ObjectMeta serviceClass) = ServiceID svc \<and>
         (\<forall>p \<in> set plans. ServiceClassRef (Spec p) = Name (ObjectMeta serviceClass))"
  using assms
  by (auto simp: convertService_def Let_def split: sum.splits option.splits
        dest!: convertServicePlans_ref)

lemma convertCatalogLoop_plans:
  "convertCatalogLoop marshal services = Inr (serviceClasses, servicePlans) \<Longrightarrow>
     (\<forall>svc \<in> set services. Plans svc \<noteq> []) \<and>
     (\<forall>cls \<in> set serviceClasses.
        \<exists>p \<in> set servicePlans. ServiceClassRef (Spec p) = Name (ObjectMeta cls))"
proof (induction services arbitrary: serviceClasses servicePlans)
  case Nil
  then show ?case by simp
next
  case (Cons svc rest)
  from Cons.prems obtain cls plans classes' plans' where
    s: "convertService marshal svc = Inr (cls, plans)" and
    l: "convertCatalogLoop marshal rest = Inr (classes', plans')" and
    e: "serviceClasses = cls # classes'" "servicePlans = plans @ plans'"
    by (auto split: sum.splits prod.splits)
  from convertService_plans[OF s] obtain p where
    p: "Plans svc \<noteq> []" "p \<in> set plans" "ServiceClassRef (Spec p) = Name (ObjectMeta cls)"
    by (cases plans) auto
  from Cons.IH[OF l] p e show ?case by auto
qed

text \<open>
  C10. When some service of a catalog has no plan, \<open>convertCatalog\<close> returns an error,
  and with it no class and no plan (the error stands in place of the result). And when
  \<open>convertCatalog\<close> returns classes and plans, every class has a plan among them that
  refers to it.
\<close>

theorem convertCatalog_every_class_has_a_plan:
  "((\<exists>svc \<in> set (Services inp). Plans svc = []) \<longrightarrow>
      (\<exists>err. convertCatalog marshal inp = Inl err)) \<and>
   (convertCatalog marshal inp = Inr (serviceClasses, servicePlans) \<longrightarrow>
      (\<forall>cls \<in> set serviceClasses.
         \<exists>p \<in> set servicePlans. ServiceClassRef (Spec p) = Name (ObjectMeta cls)))"
proof (intro conjI impI)
  assume empty: "\<exists>svc \<in> set (Services inp). Plans svc = []"
  show "\<exists>err. convertCatalog marshal inp = Inl err"
  proof (cases "convertCatalog marshal inp")
    case (Inl err)
    then show ?thesis by blast
  next
    case (Inr res)
    obtain cs ps where "res = (cs, ps)" by (cases res)
    with Inr have "convertCatalogLoop marshal (Services inp) = Inr (cs, ps)"
      by (simp add: convertCatalog_def)
    from convertCatalogLoop_plans[OF this] empty
    show ?thesis by blast
  qed
next
  assume "convertCatalog marshal inp = Inr (serviceClasses, servicePlans)"
  then have "convertCatalogLoop marshal (Services inp) = Inr (serviceClasses, servicePlans)"
    by (simp add: convertCatalog_def)
  from convertCatalogLoop_plans[OF this]
  show "\<forall>cls \<in> set serviceClasses.
          \<exists>p \<in> set servicePlans. ServiceClassRef (Spec p) = Name (ObjectMeta cls)"
    by blast
qed

lemmas catalog_defs =
  convertCatalog_def convertService_def convertServicePlans_def convertServicePlan_def
  marshalSchema_def emptyObjectMeta_def Let_def testPlan_def testService_def testCatalog_def
  testCatalogWithoutPlans_def testMarshal_def Sprintf_def

text \<open>
  A catalog whose second service has no plan is refused; a catalog with one service and
  one plan gives the class of the service and a plan that refers to it.
\<close>

theorem convertCatalog_every_class_has_a_plan_witness:
  "convertCatalog testMarshal testCatalogWithoutPlans
     = Inl (Error ''ServiceClass %q must have at least one plan | SCGUID2'') \<and>
   (case convertCatalog testMarshal testCatalog of
      Inl err \<Rightarrow> False
    | Inr (serviceClasses, servicePlans) \<Rightarrow>
        map (\<lambda>cls. Name (ObjectMeta cls)) serviceClasses = [''SCGUID''] \<and>
        map (\<lambda>p. ServiceClassRef (Spec p)) servicePlans = [''SCGUID''])"
  using convertCatalog_every_class_has_a_plan [of testCatalogWithoutPlans testMarshal]
    convertCatalog_every_class_has_a_plan [of testCatalog testMarshal]
  by (simp add: catalog_defs)

subsection \<open>Condition machine\<close>

text \<open>
  The instance side of C7 holds. After \<open>setInstanceConditionInternal\<close> the condition of
  the given type has the new status, reason and message; its last transition time is
  \<open>t\<close> when there was no condition of the type or its status changed, and the old time
  otherwise. A condition that was absent is appended, and conditions of other types are
  what they were (\<open>conditionOf_set_other\<close>).
\<close>

lemma setInstanceConditionLoop_exact:
  "setInstanceConditionLoop conds ty st r m t = Some conds' \<Longrightarrow>
     find (\<lambda>c. CondType c = ty) conds = Some old \<Longrightarrow>
     find (\<lambda>c. CondType c = ty) conds' =
        Some \<lparr>CondType = ty, CondStatus = st, Reason = r, Message = m,
              LastTransitionTime = (if CondStatus old \<noteq> st then t else LastTransitionTime old)\<rparr>"
  by (induction conds arbitrary: conds') (auto split: if_splits)

lemma setInstanceConditionInternal_transition:
  "conditionOf ty (Conditions (Status (setInstanceConditionInternal i ty st r m t))) =
     Some \<lparr>CondType = ty, CondStatus = st, Reason = r, Message = m,
           LastTransitionTime =
             (case conditionOf ty (Conditions (Status i)) of
                None \<Rightarrow> t
              | Some old \<Rightarrow> (if CondStatus old \<noteq> st then t else LastTransitionTime old))\<rparr>"
proof (cases "setInstanceConditionLoop (Conditions (Status i)) ty st r m t")
  case None
  then have "find (\<lambda>c. CondType c = ty) (Conditions (Status i)) = None"
    by (simp add: setInstanceConditionLoop_None)
  with None show ?thesis
    by (cases "Conditions (Status i)")
       (auto simp: conditionOf_def setInstanceConditionInternal_def Let_def find_append
             split: option.splits if_splits)
next
  case (Some conds')
  then have "find (\<lambda>c. CondType c = ty) (Conditions (Status i)) \<noteq> None"
    using setInstanceConditionLoop_None[of "Conditions (Status i)" ty st r m t] by simp
  then obtain old where old: "find (\<lambda>c. CondType c = ty) (Conditions (Status i)) = Some old"
    by blast
  from setInstanceConditionLoop_exact[OF Some old] Some old show ?thesis
    by (cases "Conditions (Status i)")
       (auto simp: conditionOf_def setInstanceConditionInternal_def Let_def)
qed

lemma setInstanceConditionInternal_appends:
  assumes "conditionOf ty (Conditions (Status i)) = None"
  shows "Conditions (Status (setInstanceConditionInternal i ty st r m t)) =
           Conditions (Status i) @
             [\<lparr>CondType = ty, CondStatus = st, Reason = r, Message = m, LastTransitionTime = t\<rparr>]"
proof -
  from assms have "setInstanceConditionLoop (Conditions (Status i)) ty st r m t = None"
    by (simp add: setInstanceConditionLoop_None conditionOf_def)
  then show ?thesis
    by (cases "Conditions (Status i)") (simp_all add: setInstanceConditionInternal_def Let_def)
qed

text \<open>
  The broker side holds when the broker has no condition at all or already has one of
  the given type, and fails otherwise: with other conditions present and none of the
  type, the conditions are left as they were.
\<close>

lemma brokerConditionLoop_present:
  "find (\<lambda>c. CondType c = ty) conds = Some old \<Longrightarrow>
     find (\<lambda>c. CondType c = ty) (brokerConditionLoop conds ty st r m t) =
        Some \<lparr>CondType = ty, CondStatus = st, Reason = r, Message = m,
              LastTransitionTime = (if CondStatus old \<noteq> st then t else LastTransitionTime old)\<rparr>"
  by (induction conds) (auto split: if_splits)

lemma brokerConditionLoop_absent:
  "find (\<lambda>c. CondType c = ty) conds = None \<Longrightarrow> brokerConditionLoop conds ty st r m t = conds"
  by (induction conds) (auto split: if_splits)

lemma brokerWithCondition_transition:
  assumes "BrokerConditions (Status broker) = []
           \<or> conditionOf ty (BrokerConditions (Status broker)) \<noteq> None"
  shows "conditionOf ty (BrokerConditions (Status (brokerWithCondition broker ty st r m t))) =
     Some \<lparr>CondType = ty, CondStatus = st, Reason = r, Message = m,
           LastTransitionTime =
             (case conditionOf ty (BrokerConditions (Status broker)) of
                None \<Rightarrow> t
              | Some old \<Rightarrow> (if CondStatus old \<noteq> st then t else LastTransitionTime old))\<rparr>"
proof (cases "BrokerConditions (Status broker)")
  case Nil
  then show ?thesis by (simp add: brokerWithCondition_def conditionOf_def Let_def)
next
  case (Cons cond rest)
  with assms obtain old where
    old: "find (\<lambda>c. CondType c = ty) (BrokerConditions (Status broker)) = Some old"
    by (auto simp: conditionOf_def)
  from Cons have "length (BrokerConditions (Status broker)) \<noteq> 0" by simp
  then have "BrokerConditions (Status (brokerWithCondition broker ty st r m t)) =
               brokerConditionLoop (BrokerConditions (Status broker)) ty st r m t"
    by (simp add: brokerWithCondition_def Let_def)
  with brokerConditionLoop_present[OF old, of st r m t] old show ?thesis
    by (simp add: conditionOf_def)
qed

lemma brokerWithCondition_absent:
  assumes "BrokerConditions (Status broker) \<noteq> []"
    and "conditionOf ty (BrokerConditions (Status broker)) = None"
  shows "BrokerConditions (Status (brokerWithCondition broker ty st r m t))
           = BrokerConditions (Status broker)"
  using assms
  by (auto simp: brokerWithCondition_def Let_def conditionOf_def brokerConditionLoop_absent)

lemmas broker_defs =
  reconcileClusterServiceBroker_def catalogFetchFailed_def catalogFetched_def
  brokerClientFailed_def reconcileClusterServiceBrokerDelete_def
  updateClusterServiceBrokerCondition_def updateClusterServiceBrokerFinalizers_def
  UpdateBrokerStatus_def apiWrite_def brokerWithCondition_def
  shouldReconcileClusterServiceBroker_def reconcileServicePlan_def
  reconcileServiceClassFromClusterServiceBrokerCatalog_def
  NewClientConfigurationForBroker_def Now_def act_def Let_def retryTimeoutController_def

text \<open>
  C7. The claim fails for brokers. A broker has a ready condition and no failed
  condition; \<open>updateClusterServiceBrokerCondition\<close> is asked to set failed to true. The
  update is submitted and accepted, and the broker it stores has no failed condition: its
  conditions are the ones it had.
\<close>

theorem broker_condition_not_added:
  "conditionOf ServiceBrokerConditionFailed (BrokerConditions (Status testBrokerRetrying)) = None \<and>
   fst (updateClusterServiceBrokerCondition (testController failingCatalogClient)
          testBrokerRetrying ServiceBrokerConditionFailed ConditionTrue
          errorReconciliationRetryTimeoutReason ''stop'' (testWorld testInstance testBrokerRetrying))
     = None \<and>
   conditionOf ServiceBrokerConditionFailed (BrokerConditions (Status (brokerServer (snd
       (updateClusterServiceBrokerCondition (testController failingCatalogClient)
          testBrokerRetrying ServiceBrokerConditionFailed ConditionTrue
          errorReconciliationRetryTimeoutReason ''stop''
          (testWorld testInstance testBrokerRetrying)))))) = None \<and>
   BrokerConditions (Status (brokerServer (snd
       (updateClusterServiceBrokerCondition (testController failingCatalogClient)
          testBrokerRetrying ServiceBrokerConditionFailed ConditionTrue
          errorReconciliationRetryTimeoutReason ''stop''
          (testWorld testInstance testBrokerRetrying)))))
     = BrokerConditions (Status testBrokerRetrying)"
  by (simp add: broker_defs fixture_defs conditionOf_def)

subsection \<open>Broker reconciler: the retry timeout of a failing catalog fetch\<close>

text \<open>
  C9. The claim fails on two runs in which the server accepts every update. In the first,
  a broker that has been failing since 100 and has a ready condition is reconciled with
  a retry duration of 600 at the clock readings from 1000, and the fetch fails again: the
  reconciliation returns nil and the broker it stores has no start time, but no failed
  condition either; its conditions are the ones it had, because
  \<open>updateClusterServiceBrokerCondition\<close> adds no condition to a broker that has some. In
  the second, the catalog of the same broker is fetched: an update with the start time
  cleared is submitted, and then the update that sets ready to true is built from the
  broker as it was read, so the broker stored at the end has the start time 100 again.
\<close>

theorem retry_timeout_sets_no_failed_condition:
  "GetCatalog failingCatalogClient = Inl (Error ''ooops'') \<and>
   OperationStartTime (Status testBrokerRetrying) = Some 100 \<and>
   100 + reconciliationRetryDuration retryTimeoutController < clock retryTimeoutController 0 \<and>
   (\<forall>n. apiWriteErr retryTimeoutController n = None) \<and>
   fst (reconcileClusterServiceBroker retryTimeoutController testBrokerRetrying
          (testWorld testInstance testBrokerRetrying)) = None \<and>
   OperationStartTime (Status (brokerServer (snd
      (reconcileClusterServiceBroker retryTimeoutController testBrokerRetrying
          (testWorld testInstance testBrokerRetrying))))) = None \<and>
   conditionOf ServiceBrokerConditionFailed (BrokerConditions (Status (brokerServer (snd
      (reconcileClusterServiceBroker retryTimeoutController testBrokerRetrying
          (testWorld testInstance testBrokerRetrying)))))) = None \<and>
   BrokerConditions (Status (brokerServer (snd
      (reconcileClusterServiceBroker retryTimeoutController testBrokerRetrying
          (testWorld testInstance testBrokerRetrying)))))
     = BrokerConditions (Status testBrokerRetrying) \<and>
   GetCatalog catalogClient = Inr testCatalog \<and>
   fst (reconcileClusterServiceBroker (testController catalogClient) testBrokerRetrying
          (testWorld testInstance testBrokerRetrying)) = None \<and>
   ActUpdateBrokerStatus
       (testBrokerRetrying\<lparr>Status := (Status testBrokerRetrying)\<lparr>OperationStartTime := None\<rparr>\<rparr>)
     \<in> set (actions (snd
      (reconcileClusterServiceBroker (testController catalogClient) testBrokerRetrying
          (testWorld testInstance testBrokerRetrying)))) \<and>
   map_option CondStatus (conditionOf ServiceBrokerConditionReady (BrokerConditions (Status
      (brokerServer (snd
        (reconcileClusterServiceBroker (testController catalogClient) testBrokerRetrying
          (testWorld testInstance testBrokerRetrying))))))) = Some ConditionTrue \<and>
   OperationStartTime (Status (brokerServer (snd
      (reconcileClusterServiceBroker (testController catalogClient) testBrokerRetrying
          (testWorld testInstance testBrokerRetrying))))) = Some 100"
  by (simp add: broker_defs fixture_defs catalog_defs conditionOf_def)

subsection \<open>Polling queue\<close>

text \<open>Only the answer to a provision call changes the polling queue.\<close>

lemma act_queue [simp]: "pollingQueue (act a w) = pollingQueue w"
  by (simp add: act_def)

lemma setInstanceCondition_queue [simp]:
  "pollingQueue (snd (setInstanceCondition c i ty st r m w)) = pollingQueue w"
  by (simp add: setInstanceCondition_def Now_def Let_def)

lemma UpdateStatus_queue [simp]:
  "pollingQueue (snd (UpdateStatus c obj w)) = pollingQueue w"
  by (simp add: UpdateStatus_def Let_def act_def split: option.splits)

lemma updateInstanceStatus_queue [simp]:
  "pollingQueue (snd (updateInstanceStatus c obj w)) = pollingQueue w"
  by (simp add: updateInstanceStatus_def)

lemma updateInstanceCondition_queue [simp]:
  "pollingQueue (snd (updateInstanceCondition c obj ty st r m w)) = pollingQueue w"
  by (simp add: updateInstanceCondition_def Let_def case_prod_beta)

lemma updateInstanceFinalizers_queue [simp]:
  "pollingQueue (snd (updateInstanceFinalizers c obj fs w)) = pollingQueue w"
  by (simp add: updateInstanceFinalizers_def Let_def)

lemma deprovisionResponded_queue [simp]:
  "pollingQueue (snd (deprovisionResponded c i tu resp w)) = pollingQueue w"
  by (simp add: deprovisionResponded_def Let_def case_prod_beta split: option.splits)

lemma deprovisionFailed_queue [simp]:
  "pollingQueue (snd (deprovisionFailed c i tu sc bn err w)) = pollingQueue w"
  by (simp add: deprovisionFailed_def Let_def case_prod_beta)

lemma getServiceClassPlanAndBroker_queue [simp]:
  "pollingQueue (snd (getServiceClassPlanAndBroker c i w)) = pollingQueue w"
  by (simp add: getServiceClassPlanAndBroker_def Let_def case_prod_beta split: sum.splits)

lemma pollInstance_queue [simp]:
  "pollingQueue (snd (pollInstance c sc sp bn bc i w)) = pollingQueue w"
proof -
  let ?request = "LastOperationRequest (ExternalID (Spec i))
                      (Some (ClassExternalID (Spec sc))) (Some (PlanExternalID (Spec sp)))
                      (case LastOperation (Status i) of
                         None \<Rightarrow> None
                       | Some key \<Rightarrow> (if key \<noteq> [] then Some key else None))"
  show ?thesis
  proof (cases "PollLastOperation bc ?request")
    case (Inl err)
    then show ?thesis
      by (simp add: pollInstance_def Let_def case_prod_beta)
  next
    case (Inr response)
    show ?thesis
    proof (cases "State response")
      case StateInProgress
      with Inr show ?thesis
        by (cases "Description response") (simp_all add: pollInstance_def Let_def)
    next
      case StateSucceeded
      with Inr show ?thesis
        by (cases "fst (updateInstanceCondition c
                     (i\<lparr>Status := (Status i)\<lparr>AsyncOpInProgress := False\<rparr>\<rparr>)
                     InstanceConditionReady ConditionFalse successDeprovisionReason
                     successDeprovisionMessage
                     (act (ActBroker ?request) w))")
           (simp_all add: pollInstance_def Let_def case_prod_beta)
    next
      case StateFailed
      with Inr show ?thesis
        by (simp add: pollInstance_def Let_def case_prod_beta)
    next
      case (StateOther state)
      with Inr show ?thesis
        by (simp add: pollInstance_def Let_def)
    qed
  qed
qed

lemma reconcileInstanceDelete_queue [simp]:
  "pollingQueue (snd (reconcileInstanceDelete c i w)) = pollingQueue w"
  by (simp add: reconcileInstanceDelete_def Let_def case_prod_beta split: sum.splits option.splits)

lemma provisionResponded_queue:
  "pollingQueue (snd (provisionResponded c i tu sc bn res w)) =
     (case res of
        Inl err \<Rightarrow> pollingQueue w
      | Inr response \<Rightarrow>
          (if ProvisionAsync response then Add (MetaNamespaceKey (ObjectMeta i)) (pollingQueue w)
           else pollingQueue w))"
  by (simp add: provisionResponded_def Let_def case_prod_beta split: sum.splits option.splits)

lemma provisionInstance_enqueues:
  assumes "pollingQueue (snd (provisionInstance c i sc sp bn bc w)) \<noteq> pollingQueue w"
  shows "\<exists>parameters nsUID response.
           (case Parameters (Spec i) of None \<Rightarrow> Inr [] | Some raw \<Rightarrow> unmarshalParameters c raw)
             = Inr parameters \<and>
           getNamespace c (Namespace (ObjectMeta i)) = Inr nsUID \<and>
           ProvisionInstance bc
             (ProvisionRequest True (ExternalID (Spec i)) (ClassExternalID (Spec sc))
                (PlanExternalID (Spec sp)) parameters nsUID nsUID
                [(''platform'', ContextProfilePlatformKubernetes),
                 (''namespace'', Namespace (ObjectMeta i))]) = Inr response \<and>
           ProvisionAsync response \<and>
           pollingQueue (snd (provisionInstance c i sc sp bn bc w))
             = Add (MetaNamespaceKey (ObjectMeta i)) (pollingQueue w)"
proof (cases "case Parameters (Spec i) of None \<Rightarrow> Inr [] | Some raw \<Rightarrow> unmarshalParameters c raw")
  case (Inl err)
  with assms show ?thesis
    by (simp add: provisionInstance_def Let_def case_prod_beta)
next
  case (Inr parameters)
  note p = Inr
  show ?thesis
  proof (cases "getNamespace c (Namespace (ObjectMeta i))")
    case (Inl err)
    with p assms show ?thesis
      by (simp add: provisionInstance_def Let_def case_prod_beta)
  next
    case (Inr nsUID)
    let ?request = "ProvisionRequest True (ExternalID (Spec i)) (ClassExternalID (Spec sc))
                      (PlanExternalID (Spec sp)) parameters nsUID nsUID
                      [(''platform'', ContextProfilePlatformKubernetes),
                       (''namespace'', Namespace (ObjectMeta i))]"
    let ?w1 = "act (ActBroker ?request) (act (ActGetNamespace (Namespace (ObjectMeta i))) w)"
    from p Inr have r: "provisionInstance c i sc sp bn bc w =
        provisionResponded c i i sc bn (ProvisionInstance bc ?request) ?w1"
      by (simp add: provisionInstance_def Let_def)
    show ?thesis
    proof (cases "ProvisionInstance bc ?request")
      case (Inl err)
      with assms show ?thesis by (simp add: r provisionResponded_queue)
    next
      case (Inr response)
      with assms have a: "ProvisionAsync response"
        by (simp add: r provisionResponded_queue split: if_splits)
      with Inr have "pollingQueue (snd (provisionInstance c i sc sp bn bc w))
             = Add (MetaNamespaceKey (ObjectMeta i)) (pollingQueue w)"
        by (simp add: r provisionResponded_queue)
      with p \<open>getNamespace c (Namespace (ObjectMeta i)) = Inr nsUID\<close> Inr a show ?thesis
        by blast
    qed
  qed
qed

lemma reconcileInstance_enqueues:
  assumes "pollingQueue (snd (reconcileInstance c i w)) \<noteq> pollingQueue w"
  shows "\<exists>serviceClass servicePlan brokerName brokerClient parameters nsUID response.
           getServiceClassPlanAndBroker c i w
             = (Inr (serviceClass, servicePlan, brokerName, brokerClient), w) \<and>
           (case Parameters (Spec i) of None \<Rightarrow> Inr [] | Some raw \<Rightarrow> unmarshalParameters c raw)
             = Inr parameters \<and>
           getNamespace c (Namespace (ObjectMeta i)) = Inr nsUID \<and>
           ProvisionInstance brokerClient
             (ProvisionRequest True (ExternalID (Spec i)) (ClassExternalID (Spec serviceClass))
                (PlanExternalID (Spec servicePlan)) parameters nsUID nsUID
                [(''platform'', ContextProfilePlatformKubernetes),
                 (''namespace'', Namespace (ObjectMeta i))]) = Inr response \<and>
           ProvisionAsync response \<and>
           pollingQueue (snd (reconcileInstance c i w))
             = Add (MetaNamespaceKey (ObjectMeta i)) (pollingQueue w)"
proof -
  obtain r w1 where g: "getServiceClassPlanAndBroker c i w = (r, w1)" by fastforce
  then have q1: "pollingQueue w1 = pollingQueue w"
    using getServiceClassPlanAndBroker_queue[of c i w] by simp
  show ?thesis
  proof (cases r)
    case (Inl err)
    with g q1 have "pollingQueue (snd (reconcileInstance c i w)) = pollingQueue w"
      by (simp add: reconcileInstance_def)
    with assms show ?thesis by simp
  next
    case (Inr x)
    obtain sc sp bn bc where x: "x = (sc, sp, bn, bc)" by (cases x) auto
    from g Inr have w1: "w1 = w" by (simp add: getServiceClassPlanAndBroker_resolved)
    show ?thesis
    proof (cases "pollingQueue (snd (provisionInstance c i sc sp bn bc w)) = pollingQueue w")
      case True
      with g w1 Inr x have "pollingQueue (snd (reconcileInstance c i w)) = pollingQueue w"
        by (simp add: reconcileInstance_def)
      with assms show ?thesis by simp
    next
      case False
      from assms g w1 Inr x have
        e: "reconcileInstance c i w = provisionInstance c i sc sp bn bc w"
        by (auto simp: reconcileInstance_def split: if_splits)
      from provisionInstance_enqueues[OF False] g w1 Inr x show ?thesis
        unfolding e by blast
    qed
  qed
qed

lemma pollInstance_returns_nil:
  "(fst (pollInstance c sc sp bn bc i w) = None) =
     (case PollLastOperation bc
             (LastOperationRequest (ExternalID (Spec i))
                (Some (ClassExternalID (Spec sc))) (Some (PlanExternalID (Spec sp)))
                (case LastOperation (Status i) of
                   None \<Rightarrow> None
                 | Some k \<Rightarrow> (if k \<noteq> [] then Some k else None))) of
        Inl err \<Rightarrow> IsGoneError err \<and> DeletionTimestamp (ObjectMeta i) \<noteq> None
      | Inr response \<Rightarrow>
          State response = StateFailed \<or>
          (State response = StateSucceeded \<and>
           (DeletionTimestamp (ObjectMeta i) \<noteq> None \<longrightarrow> apiWriteErr c (writes w) = None)))"
proof -
  let ?request = "LastOperationRequest (ExternalID (Spec i))
                      (Some (ClassExternalID (Spec sc))) (Some (PlanExternalID (Spec sp)))
                      (case LastOperation (Status i) of
                         None \<Rightarrow> None
                       | Some k \<Rightarrow> (if k \<noteq> [] then Some k else None))"
  show ?thesis
  proof (cases "PollLastOperation bc ?request")
    case (Inl err)
    then show ?thesis
      by (simp add: pollInstance_def Let_def case_prod_beta)
  next
    case (Inr response)
    show ?thesis
    proof (cases "State response")
      case StateInProgress
      with Inr show ?thesis by (simp add: pollInstance_def Let_def)
    next
      case StateSucceeded
      with Inr show ?thesis
        by (cases "apiWriteErr c (writes w)")
           (simp_all add: pollInstance_def Let_def case_prod_beta updateInstanceCondition_def
              setInstanceCondition_def Now_def UpdateStatus_def act_def)
    next
      case StateFailed
      with Inr show ?thesis by (simp add: pollInstance_def Let_def case_prod_beta)
    next
      case (StateOther state)
      with Inr show ?thesis by (simp add: pollInstance_def Let_def)
    qed
  qed
qed

text \<open>
  One run of the worker function on a queue whose first key is queued once and is not
  waiting: the key is held afterwards exactly when the reconciler returned an error and
  the key was requeued fewer than \<open>maxRetries\<close> times before.
\<close>

lemma workerIteration_outcome:
  assumes "queue q = key # rest" "key \<notin> set rest" "key \<notin> set (waiting q)" "\<not> shuttingDown q"
  shows "\<exists>q'. workerIteration reconciler maxRetries False (q, s)
                 = Some (False, q', snd (reconciler key s)) \<and>
              holds q' key = (fst (reconciler key s) \<noteq> None \<and> NumRequeues q key < maxRetries) \<and>
              NumRequeues q' key =
                (if fst (reconciler key s) = None then NumRequeues q key
                 else if NumRequeues q key < maxRetries then Suc (NumRequeues q key) else 0)"
  using assms
  by (cases "reconciler key s")
     (auto simp: workerIteration_def Get_def Done_def Forget_def AddRateLimited_def NumRequeues_def
        holds_def Let_def split: option.splits)

lemma pollingRound_outcome:
  assumes "queue q = key # rest" "key \<notin> set rest" "key \<notin> set (waiting q)" "\<not> shuttingDown q"
    and "MetaNamespaceKey (ObjectMeta (instanceServer w)) = key"
    and "getServiceClassPlanAndBroker c (instanceServer w) w =
           (Inr (serviceClass, servicePlan, brokerName, brokerClient), w)"
  shows "\<exists>q'. workerIteration (requeueServiceInstanceForPoll c) maxRetries False (q, w)
                 = Some (False, q',
                     snd (pollInstance c serviceClass servicePlan brokerName brokerClient
                            (instanceServer w) w)) \<and>
              holds q' key =
                (fst (pollInstance c serviceClass servicePlan brokerName brokerClient
                        (instanceServer w) w) \<noteq> None \<and> NumRequeues q key < maxRetries) \<and>
              NumRequeues q' key =
                (if fst (pollInstance c serviceClass servicePlan brokerName brokerClient
                           (instanceServer w) w) = None then NumRequeues q key
                 else if NumRequeues q key < maxRetries then Suc (NumRequeues q key) else 0)"
proof -
  from assms(5,6) have
    "requeueServiceInstanceForPoll c key w =
       pollInstance c serviceClass servicePlan brokerName brokerClient (instanceServer w) w"
    by (simp add: requeueServiceInstanceForPoll_def pollInstanceInternal_def)
  with workerIteration_outcome[OF assms(1-4), of "requeueServiceInstanceForPoll c" w]
  show ?thesis by simp
qed




end
